theory Spec2Isabelle
  imports Complex_Main
begin

section \<open>Text: the string operations of the analyzer\<close>

text \<open>
  The analyzer (\<^verbatim>\<open>scripts/log_analyzer.py\<close>) works on Python \<^verbatim>\<open>str\<close> values. A character is
  modelled as a \<^typ>\<open>char\<close>, read as the code point of that number, so the model covers the
  text whose code points are below 256. The character classes below are those of
  \<^verbatim>\<open>str.isspace\<close>, \<^verbatim>\<open>\s\<close>, \<^verbatim>\<open>\d\<close>, \<^verbatim>\<open>\w\<close> and \<^verbatim>\<open>str.lower\<close> on that range.
\<close>

definition code_point :: "char \<Rightarrow> nat" where
  "code_point c = of_char c"

definition isspace :: "char \<Rightarrow> bool" where
  "isspace c = (let n = code_point c in
     (9 \<le> n \<and> n \<le> 13) \<or> (28 \<le> n \<and> n \<le> 32) \<or> n = 133 \<or> n = 160)"

definition nonspace :: "char \<Rightarrow> bool" where
  "nonspace c = (\<not> isspace c)"

definition isdigit :: "char \<Rightarrow> bool" where
  "isdigit c = (let n = code_point c in 48 \<le> n \<and> n \<le> 57)"

definition isword :: "char \<Rightarrow> bool" where
  "isword c = (let n = code_point c in
     (48 \<le> n \<and> n \<le> 57) \<or> (65 \<le> n \<and> n \<le> 90) \<or> n = 95 \<or> (97 \<le> n \<and> n \<le> 122)
     \<or> n = 170 \<or> n = 178 \<or> n = 179 \<or> n = 181 \<or> n = 185 \<or> n = 186
     \<or> (188 \<le> n \<and> n \<le> 190) \<or> (192 \<le> n \<and> n \<le> 214) \<or> (216 \<le> n \<and> n \<le> 246)
     \<or> 248 \<le> n)"

definition lower_char :: "char \<Rightarrow> char" where
  "lower_char c = (let n = code_point c in
     if (65 \<le> n \<and> n \<le> 90) \<or> (192 \<le> n \<and> n \<le> 222 \<and> n \<noteq> 215)
     then char_of (n + 32) else c)"

text \<open>\<^verbatim>\<open>s.lower()\<close>\<close>

definition lower :: "string \<Rightarrow> string" where
  "lower s = map lower_char s"

text \<open>\<^verbatim>\<open>s.strip()\<close>: leading and trailing whitespace removed.\<close>

definition strip :: "string \<Rightarrow> string" where
  "strip s = rev (dropWhile isspace (rev (dropWhile isspace s)))"

text \<open>
  \<^verbatim>\<open>s.split()\<close>: the maximal runs of non-whitespace characters, in order. The scan keeps the
  token read so far in \<open>cur\<close>.
\<close>

fun split_from :: "string \<Rightarrow> string \<Rightarrow> string list" where
  "split_from cur [] = (if cur = [] then [] else [cur])"
| "split_from cur (c # cs) =
     (if isspace c then (if cur = [] then split_from [] cs else cur # split_from [] cs)
      else split_from (cur @ [c]) cs)"

definition split :: "string \<Rightarrow> string list" where
  "split s = split_from [] s"

text \<open>\<^verbatim>\<open>s.startswith(p)\<close> and the substring test \<^verbatim>\<open>p in s\<close>.\<close>

definition startswith :: "string \<Rightarrow> string \<Rightarrow> bool" where
  "startswith s p = (take (length p) s = p)"

fun contains :: "string \<Rightarrow> string \<Rightarrow> bool" where
  "contains [] p = (p = [])"
| "contains (c # cs) p = (startswith (c # cs) p \<or> contains cs p)"

text \<open>\<^verbatim>\<open>int(s)\<close> on a string of ASCII digits (a leading space is skipped, as \<^verbatim>\<open>int\<close> does).\<close>

definition digit_val :: "char \<Rightarrow> nat" where
  "digit_val c = code_point c - 48"

definition int_of_digits :: "string \<Rightarrow> nat" where
  "int_of_digits s = foldl (\<lambda>acc c. 10 * acc + digit_val c) 0 (filter isdigit s)"

section \<open>Regular expressions, as the analyzer uses them\<close>

text \<open>
  Every pattern of the analyzer, and the pattern that \<^verbatim>\<open>datetime.strptime\<close> builds from the
  format string, is a sequence of three kinds of item: a literal text, a greedy repetition
  \<^verbatim>\<open>C+\<close> or \<^verbatim>\<open>C*\<close> of a character class (\<open>Rep C n\<close>: at least \<open>n\<close> characters), and an
  alternation of fixed-width alternatives, each a sequence of one-character classes.
  \<open>match_here\<close> is \<^verbatim>\<open>re.match\<close>: anchored at the start, the repetition takes the longest run
  first and gives characters back one at a time, the alternation tries its alternatives from
  left to right, and the first way to match the whole sequence wins. The result is the text
  taken by each repetition and alternation (the capture groups), and the unread rest.
\<close>

datatype item = Lit string | Rep "char \<Rightarrow> bool" nat | Alt "(char \<Rightarrow> bool) list list"

definition alt_matches :: "(char \<Rightarrow> bool) list \<Rightarrow> string \<Rightarrow> bool" where
  "alt_matches cs s = (length cs \<le> length s \<and> list_all2 (\<lambda>P c. P c) cs (take (length cs) s))"

function match_here :: "item list \<Rightarrow> string \<Rightarrow> (string list \<times> string) option"
  and try_len :: "item list \<Rightarrow> string \<Rightarrow> nat \<Rightarrow> nat \<Rightarrow> (string list \<times> string) option"
  and try_alts :: "item list \<Rightarrow> string \<Rightarrow> (char \<Rightarrow> bool) list list \<Rightarrow> (string list \<times> string) option"
where
  "match_here [] s = Some ([], s)"
| "match_here (Lit l # its) s =
     (if startswith s l then match_here its (drop (length l) s) else None)"
| "match_here (Rep P n # its) s = try_len its s n (length (takeWhile P s))"
| "match_here (Alt alts # its) s = try_alts its s alts"
| "try_len its s n k =
     (if k < n then None
      else case match_here its (drop k s) of
             Some (gs, r) \<Rightarrow> Some (take k s # gs, r)
           | None \<Rightarrow> (if k = 0 then None else try_len its s n (k - 1)))"
| "try_alts its s [] = None"
| "try_alts its s (a # alts) =
     (if alt_matches a s
      then (case match_here its (drop (length a) s) of
              Some (gs, r) \<Rightarrow> Some (take (length a) s # gs, r)
            | None \<Rightarrow> try_alts its s alts)
      else try_alts its s alts)"
  by pat_completeness auto
termination
  by (relation "inv_image (less_than <*lex*> less_than)
        (\<lambda>x. case x of
           Inl (its, s) \<Rightarrow> (length its, 0)
         | Inr (Inl (its, s, n, k)) \<Rightarrow> (length its, Suc k)
         | Inr (Inr (its, s, alts)) \<Rightarrow> (length its, Suc (length alts)))")
     auto

section \<open>The primary grammar\<close>

text \<open>
  \<^verbatim>\<open>self.log_pattern\<close>, the Common Log Format expression of \<^verbatim>\<open>LogAnalyzer.__init__\<close>:
  \<^verbatim>\<open>(?P<ip>\S+) - - \[(?P<timestamp>[^\]]+)\] \<close>
  \<^verbatim>\<open>"(?P<method>\w+) (?P<url>\S+) (?P<protocol>[\w/\.]+)" \<close>
  \<^verbatim>\<open>(?P<status>\d+) (?P<size>\d+) "(?P<referrer>[^"]*)" "(?P<user_agent>[^"]*)"\<close>
\<close>

definition not_rbracket :: "char \<Rightarrow> bool" where
  "not_rbracket c = (c \<noteq> CHR '']'')"

definition not_dquote :: "char \<Rightarrow> bool" where
  "not_dquote c = (c \<noteq> CHR 0x22)"

definition protocol_char :: "char \<Rightarrow> bool" where
  "protocol_char c = (isword c \<or> c = CHR ''/'' \<or> c = CHR ''.'')"

definition log_pattern :: "item list" where
  "log_pattern =
     [Rep nonspace 1, Lit '' - - ['', Rep not_rbracket 1, Lit ''] \"'',
      Rep isword 1, Lit '' '', Rep nonspace 1, Lit '' '', Rep protocol_char 1, Lit ''\" '',
      Rep isdigit 1, Lit '' '', Rep isdigit 1, Lit '' \"'', Rep not_dquote 0, Lit ''\" \"'',
      Rep not_dquote 0, Lit ''\"'']"

text \<open>\<^verbatim>\<open>match.groupdict()\<close>: the nine named groups. (\<open>method_field\<close> and \<open>size_field\<close> are the groups \<^verbatim>\<open>method\<close> and \<^verbatim>\<open>size\<close>.)\<close>

record entry =
  ip :: string
  timestamp :: string
  method_field :: string
  url :: string
  protocol :: string
  status :: string
  size_field :: string
  referrer :: string
  user_agent :: string

definition groupdict :: "string list \<Rightarrow> entry option" where
  "groupdict gs =
     (case gs of
        [g1, g2, g3, g4, g5, g6, g7, g8, g9] \<Rightarrow>
          Some \<lparr>ip = g1, timestamp = g2, method_field = g3, url = g4, protocol = g5,
                status = g6, size_field = g7, referrer = g8, user_agent = g9\<rparr>
      | _ \<Rightarrow> None)"

text \<open>\<^verbatim>\<open>self.log_pattern.match(line)\<close>, with \<open>None\<close> for no match.\<close>

definition log_pattern_match :: "string \<Rightarrow> entry option" where
  "log_pattern_match line =
     (case match_here log_pattern line of
        None \<Rightarrow> None
      | Some (gs, r) \<Rightarrow> groupdict gs)"

section \<open>The hour of a timestamp\<close>

text \<open>
  \<^verbatim>\<open>datetime.strptime(timestamp_str, '%d/%b/%Y:%H:%M:%S')\<close> in the C locale. The library
  turns the format into the expression
  \<^verbatim>\<open>(?P<d>3[0-1]|[1-2]\d|0[1-9]|[1-9]| [1-9])/(?P<b>jan|feb|...|dec)/(?P<Y>\d\d\d\d)\<close>
  \<^verbatim>\<open>:(?P<H>2[0-3]|[0-1]\d|\d):(?P<M>[0-5]\d|\d):(?P<S>6[0-1]|[0-5]\d|\d)\<close>,
  matched ignoring case; it raises \<^verbatim>\<open>ValueError\<close> when the text does not match, when text
  remains after the match, and when the fields are not a date and time of the calendar
  (year 0, a day the month does not have, second 60 or 61). Every such error is \<open>None\<close> here.
\<close>

definition in_range :: "char \<Rightarrow> char \<Rightarrow> char \<Rightarrow> bool" where
  "in_range lo hi c = (code_point lo \<le> code_point c \<and> code_point c \<le> code_point hi)"

definition is_char :: "char \<Rightarrow> char \<Rightarrow> bool" where
  "is_char x c = (c = x)"

definition ignorecase :: "string \<Rightarrow> (char \<Rightarrow> bool) list" where
  "ignorecase w = map (\<lambda>x c. lower_char c = x) w"

definition month_names :: "string list" where
  "month_names = [''jan'', ''feb'', ''mar'', ''apr'', ''may'', ''jun'',
                  ''jul'', ''aug'', ''sep'', ''oct'', ''nov'', ''dec'']"

definition strptime_pattern :: "item list" where
  "strptime_pattern =
     [Alt [[is_char CHR ''3'', in_range CHR ''0'' CHR ''1''],
           [in_range CHR ''1'' CHR ''2'', isdigit],
           [is_char CHR ''0'', in_range CHR ''1'' CHR ''9''],
           [in_range CHR ''1'' CHR ''9''],
           [is_char CHR '' '', in_range CHR ''1'' CHR ''9'']],
      Lit ''/'',
      Alt (map ignorecase month_names),
      Lit ''/'',
      Alt [[isdigit, isdigit, isdigit, isdigit]],
      Lit '':'',
      Alt [[is_char CHR ''2'', in_range CHR ''0'' CHR ''3''],
           [in_range CHR ''0'' CHR ''1'', isdigit],
           [isdigit]],
      Lit '':'',
      Alt [[in_range CHR ''0'' CHR ''5'', isdigit], [isdigit]],
      Lit '':'',
      Alt [[is_char CHR ''6'', in_range CHR ''0'' CHR ''1''],
           [in_range CHR ''0'' CHR ''5'', isdigit],
           [isdigit]]]"

record datetime =
  year :: nat
  month :: nat
  day :: nat
  hour :: nat
  minute :: nat
  second :: nat

fun index_of :: "'a \<Rightarrow> 'a list \<Rightarrow> nat" where
  "index_of x [] = 0"
| "index_of x (y # ys) = (if x = y then 0 else Suc (index_of x ys))"

definition is_leap :: "nat \<Rightarrow> bool" where
  "is_leap y = (y mod 4 = 0 \<and> (y mod 100 \<noteq> 0 \<or> y mod 400 = 0))"

definition days_in_month :: "nat \<Rightarrow> nat \<Rightarrow> nat" where
  "days_in_month y m =
     (if m = 2 then (if is_leap y then 29 else 28)
      else if m = 4 \<or> m = 6 \<or> m = 9 \<or> m = 11 then 30 else 31)"

definition strptime :: "string \<Rightarrow> datetime option" where
  "strptime data_string =
     (case match_here strptime_pattern data_string of
        Some ([d, b, Y, H, M, S], r) \<Rightarrow>
          (let y = int_of_digits Y; m = Suc (index_of (lower b) month_names);
               dd = int_of_digits d; s = int_of_digits S
           in if r \<noteq> [] then None
              else if y = 0 \<or> days_in_month y m < dd \<or> 59 < s then None
              else Some \<lparr>year = y, month = m, day = dd, hour = int_of_digits H,
                         minute = int_of_digits M, second = s\<rparr>)
      | _ \<Rightarrow> None)"

text \<open>\<^verbatim>\<open>dt.strftime('%H:00')\<close>: the hour in two digits.\<close>

definition digit_char :: "nat \<Rightarrow> char" where
  "digit_char n = char_of (48 + n)"

definition strftime_hour :: "datetime \<Rightarrow> string" where
  "strftime_hour dt = [digit_char (hour dt div 10), digit_char (hour dt mod 10)] @ '':00''"

text \<open>
  The \<^verbatim>\<open>try\<close> block of \<^verbatim>\<open>_process_log_entry\<close>: the first whitespace-separated token of the
  timestamp (\<^verbatim>\<open>IndexError\<close> when there is none) is parsed and formatted; the bare
  \<^verbatim>\<open>except\<close> turns each error into "no hour".
\<close>

definition hour_of :: "string \<Rightarrow> string option" where
  "hour_of ts =
     (case split ts of
        [] \<Rightarrow> None
      | timestamp_str # _ \<Rightarrow>
          (case strptime timestamp_str of None \<Rightarrow> None | Some dt \<Rightarrow> Some (strftime_hour dt)))"

section \<open>The statistics\<close>

text \<open>
  A \<^verbatim>\<open>Counter\<close> is a dictionary from keys to counts that keeps its keys in the order of
  their first insertion (the order in which \<^verbatim>\<open>for key in counter\<close> visits them), so it is an
  association list with each key at most once. \<open>incr k c\<close> is \<^verbatim>\<open>c[k] += 1\<close>: a missing
  key counts as 0 and is appended. \<open>count_of c k\<close> is \<^verbatim>\<open>c[k]\<close>, 0 for a missing key.
\<close>

type_synonym counter = "(string \<times> int) list"

fun incr :: "string \<Rightarrow> counter \<Rightarrow> counter" where
  "incr k [] = [(k, 1)]"
| "incr k ((k', n) # c) = (if k = k' then (k', n + 1) # c else (k', n) # incr k c)"

definition count_of :: "counter \<Rightarrow> string \<Rightarrow> int" where
  "count_of c k = (case map_of c k of None \<Rightarrow> 0 | Some n \<Rightarrow> n)"

definition counter_keys :: "counter \<Rightarrow> string list" where
  "counter_keys c = map fst c"

definition counter_values :: "counter \<Rightarrow> int list" where
  "counter_values c = map snd c"

text \<open>\<^verbatim>\<open>self.stats\<close>, and its value after \<^verbatim>\<open>LogAnalyzer.__init__\<close>.\<close>

record stats =
  total_requests :: int
  status_codes :: counter
  top_pages :: counter
  top_ips :: counter
  hourly_activity :: counter
  user_agents :: counter
  referrers :: counter

definition init_stats :: stats where
  "init_stats = \<lparr>total_requests = 0, status_codes = [], top_pages = [], top_ips = [],
                  hourly_activity = [], user_agents = [], referrers = []\<rparr>"

section \<open>Ingestion\<close>

text \<open>
  The browser name that \<^verbatim>\<open>_process_log_entry\<close> derives from a user agent: the
  \<^verbatim>\<open>if\<close>/\<^verbatim>\<open>elif\<close> chain on \<^verbatim>\<open>ua = entry['user_agent'].lower()\<close>, in the order of the source.
\<close>

definition browser_of :: "string \<Rightarrow> string" where
  "browser_of user_agent_str =
     (let ua = lower user_agent_str in
      if contains ua ''chrome'' then ''Chrome''
      else if contains ua ''firefox'' then ''Firefox''
      else if contains ua ''safari'' \<and> \<not> contains ua ''chrome'' then ''Safari''
      else if contains ua ''edge'' then ''Edge''
      else if contains ua ''bot'' \<or> contains ua ''crawler'' then ''Bot/Crawler''
      else ''Other'')"

text \<open>\<^verbatim>\<open>_process_log_entry(entry, line_num)\<close>, on the statistics.\<close>

definition process_log_entry :: "entry \<Rightarrow> stats \<Rightarrow> stats" where
  "process_log_entry e st =
     (let st1 = st\<lparr>total_requests := total_requests st + 1\<rparr>;
          st2 = st1\<lparr>status_codes := incr (status e) (status_codes st1)\<rparr>;
          st3 = st2\<lparr>top_pages := incr (url e) (top_pages st2)\<rparr>;
          st4 = st3\<lparr>top_ips := incr (ip e) (top_ips st3)\<rparr>;
          st5 = (case hour_of (timestamp e) of
                   None \<Rightarrow> st4
                 | Some h \<Rightarrow> st4\<lparr>hourly_activity := incr h (hourly_activity st4)\<rparr>);
          st6 = (if user_agent e \<noteq> [] \<and> user_agent e \<noteq> ''-''
                 then st5\<lparr>user_agents := incr (browser_of (user_agent e)) (user_agents st5)\<rparr>
                 else st5)
      in if referrer e \<noteq> [] \<and> referrer e \<noteq> ''-''
         then st6\<lparr>referrers := incr (referrer e) (referrers st6)\<rparr>
         else st6)"

text \<open>
  The three tests of \<^verbatim>\<open>_parse_fallback\<close>: \<^verbatim>\<open>re.match(r'\d+\.\d+\.\d+\.\d+', part)\<close>,
  \<^verbatim>\<open>re.match(r'^\d{3}$', part)\<close> (where \<^verbatim>\<open>$\<close> is the end of the text or the place before a
  final newline) and \<^verbatim>\<open>'/' in part and 'HTTP' not in part\<close>.
\<close>

definition looks_like_ip :: "string \<Rightarrow> bool" where
  "looks_like_ip part =
     (match_here [Rep isdigit 1, Lit ''.'', Rep isdigit 1, Lit ''.'', Rep isdigit 1, Lit ''.'',
                  Rep isdigit 1] part \<noteq> None)"

definition three_digits :: "string \<Rightarrow> bool" where
  "three_digits part =
     (case match_here [Alt [[isdigit, isdigit, isdigit]]] part of
        None \<Rightarrow> False
      | Some (gs, r) \<Rightarrow> r = [] \<or> r = [CHR 0x0A])"

definition looks_like_url :: "string \<Rightarrow> bool" where
  "looks_like_url part = (contains part ''/'' \<and> \<not> contains part ''HTTP'')"

text \<open>
  \<^verbatim>\<open>_parse_fallback(line, line_num)\<close>. Each \<^verbatim>\<open>for\<close> loop stops at the first part that passes
  its test (\<open>find\<close>), and the count of requests goes up whether or not a loop found one.
\<close>

definition parse_fallback :: "string \<Rightarrow> stats \<Rightarrow> stats" where
  "parse_fallback line st =
     (let parts = split line in
      if 7 \<le> length parts then
        (let st1 = (case find looks_like_ip parts of
                      None \<Rightarrow> st
                    | Some part \<Rightarrow> st\<lparr>top_ips := incr part (top_ips st)\<rparr>);
             st2 = (case find three_digits parts of
                      None \<Rightarrow> st1
                    | Some part \<Rightarrow> st1\<lparr>status_codes := incr part (status_codes st1)\<rparr>);
             st3 = (case find looks_like_url parts of
                      None \<Rightarrow> st2
                    | Some part \<Rightarrow> st2\<lparr>top_pages := incr part (top_pages st2)\<rparr>)
         in st3\<lparr>total_requests := total_requests st3 + 1\<rparr>)
      else st)"

text \<open>The body of the loop of \<^verbatim>\<open>parse_log_file\<close>, for one line of the file.\<close>

definition process_line :: "string \<Rightarrow> stats \<Rightarrow> stats" where
  "process_line raw st =
     (let line = strip raw in
      if line = [] then st
      else case log_pattern_match line of
             Some e \<Rightarrow> process_log_entry e st
           | None \<Rightarrow> parse_fallback line st)"

fun process_lines :: "string list \<Rightarrow> stats \<Rightarrow> stats" where
  "process_lines [] st = st"
| "process_lines (raw # rest) st = process_lines rest (process_line raw st)"

section \<open>Exceptions during ingestion\<close>

text \<open>
  Python raises where the typed functions above cannot: \<^verbatim>\<open>entry[key]\<close> raises \<^verbatim>\<open>KeyError\<close>
  for a key that the dictionary lacks, \<^verbatim>\<open>[0]\<close> raises \<^verbatim>\<open>IndexError\<close> on an empty list and
  \<^verbatim>\<open>strptime\<close> raises \<^verbatim>\<open>ValueError\<close>. The definitions of this section follow the statements
  of \<^verbatim>\<open>_process_log_entry\<close> and of the loop of \<^verbatim>\<open>parse_log_file\<close> with every raise written
  out. A result is the statistics, or an exception together with the statistics as they
  were when it was raised.
\<close>

datatype py_error = ZeroDivisionError | IndexError | ValueError | KeyError

text \<open>
  \<^verbatim>\<open>match.groupdict()\<close> as a dictionary: the names of the groups, in the order of the
  pattern, each with the text of its group. \<open>getitem d key\<close> is \<^verbatim>\<open>d[key]\<close>.
\<close>

definition group_names :: "string list" where
  "group_names = [''ip'', ''timestamp'', ''method'', ''url'', ''protocol'', ''status'', ''size'',
                  ''referrer'', ''user_agent'']"

definition groupdict_items :: "string list \<Rightarrow> (string \<times> string) list" where
  "groupdict_items gs = zip group_names gs"

definition getitem :: "(string \<times> string) list \<Rightarrow> string \<Rightarrow> py_error + string" where
  "getitem d key = (case map_of d key of None \<Rightarrow> Inl KeyError | Some v \<Rightarrow> Inr v)"

text \<open>
  The statements inside the \<^verbatim>\<open>try\<close> of \<^verbatim>\<open>_process_log_entry\<close>: they count the hour of the
  entry, or raise.
\<close>

definition hour_try :: "(string \<times> string) list \<Rightarrow> stats \<Rightarrow> py_error + stats" where
  "hour_try entry_dict st =
     (case getitem entry_dict ''timestamp'' of
        Inl err \<Rightarrow> Inl err
      | Inr ts \<Rightarrow>
          (case split ts of
             [] \<Rightarrow> Inl IndexError
           | timestamp_str # _ \<Rightarrow>
               (case strptime timestamp_str of
                  None \<Rightarrow> Inl ValueError
                | Some dt \<Rightarrow>
                    Inr (st\<lparr>hourly_activity := incr (strftime_hour dt) (hourly_activity st)\<rparr>))))"

text \<open>
  \<^verbatim>\<open>_process_log_entry(entry, line_num)\<close>, statement by statement. The bare \<^verbatim>\<open>except\<close> with
  \<^verbatim>\<open>pass\<close> keeps the statistics as they are when the \<^verbatim>\<open>try\<close> raises; an exception of any
  other statement leaves the function.
\<close>

definition process_log_entry_raising ::
    "(string \<times> string) list \<Rightarrow> stats \<Rightarrow> py_error \<times> stats + stats" where
  "process_log_entry_raising entry_dict st =
     (let st1 = st\<lparr>total_requests := total_requests st + 1\<rparr> in
      case getitem entry_dict ''status'' of
        Inl err \<Rightarrow> Inl (err, st1)
      | Inr status_v \<Rightarrow>
     (let st2 = st1\<lparr>status_codes := incr status_v (status_codes st1)\<rparr> in
      case getitem entry_dict ''url'' of
        Inl err \<Rightarrow> Inl (err, st2)
      | Inr url_v \<Rightarrow>
     (let st3 = st2\<lparr>top_pages := incr url_v (top_pages st2)\<rparr> in
      case getitem entry_dict ''ip'' of
        Inl err \<Rightarrow> Inl (err, st3)
      | Inr ip_v \<Rightarrow>
     (let st4 = st3\<lparr>top_ips := incr ip_v (top_ips st3)\<rparr>;
          st5 = (case hour_try entry_dict st4 of Inl err \<Rightarrow> st4 | Inr st' \<Rightarrow> st')
      in
      case getitem entry_dict ''user_agent'' of
        Inl err \<Rightarrow> Inl (err, st5)
      | Inr ua_v \<Rightarrow>
     (let st6 = (if ua_v \<noteq> [] \<and> ua_v \<noteq> ''-''
                 then st5\<lparr>user_agents := incr (browser_of ua_v) (user_agents st5)\<rparr>
                 else st5)
      in
      case getitem entry_dict ''referrer'' of
        Inl err \<Rightarrow> Inl (err, st6)
      | Inr referrer_v \<Rightarrow>
          Inr (if referrer_v \<noteq> [] \<and> referrer_v \<noteq> ''-''
               then st6\<lparr>referrers := incr referrer_v (referrers st6)\<rparr>
               else st6))))))"

text \<open>
  The body of the loop, and the loop: an exception of the body ends the loop. The fallback
  has no statement that raises.
\<close>

definition process_line_raising :: "string \<Rightarrow> stats \<Rightarrow> py_error \<times> stats + stats" where
  "process_line_raising raw st =
     (let line = strip raw in
      if line = [] then Inr st
      else case match_here log_pattern line of
             Some (gs, r) \<Rightarrow> process_log_entry_raising (groupdict_items gs) st
           | None \<Rightarrow> Inr (parse_fallback line st))"

fun read_lines :: "string list \<Rightarrow> stats \<Rightarrow> py_error \<times> stats + stats" where
  "read_lines [] st = Inr st"
| "read_lines (raw # rest) st =
     (case process_line_raising raw st of
        Inl raised \<Rightarrow> Inl raised
      | Inr st' \<Rightarrow> read_lines rest st')"

text \<open>
  \<^verbatim>\<open>parse_log_file()\<close>. The file is \<open>None\<close> when it does not exist or cannot be opened, and
  otherwise the list of its lines; the file is read with \<^verbatim>\<open>errors='ignore'\<close>, so decoding
  raises nothing. An exception of the loop is caught by \<^verbatim>\<open>except Exception\<close>, and the
  function returns \<^verbatim>\<open>False\<close>. The result is the returned flag and the statistics.
\<close>

definition parse_log_file :: "string list option \<Rightarrow> stats \<Rightarrow> bool \<times> stats" where
  "parse_log_file log_file st =
     (case log_file of
        None \<Rightarrow> (False, st)
      | Some file_lines \<Rightarrow>
          (case read_lines file_lines st of
             Inl (err, st') \<Rightarrow> (False, st')
           | Inr st' \<Rightarrow> (True, st')))"

section \<open>The security checks\<close>

text \<open>
  \<^verbatim>\<open>_check_security_issues()\<close> prints one warning line for each hit; the model returns the
  warnings in the order printed. The first loop visits the keys of
  \<^verbatim>\<open>self.stats['user_agents']\<close>, the second the keys of \<^verbatim>\<open>self.stats['top_pages']\<close>.
\<close>

datatype finding =
  Suspicious_user_agent string
| Possible_attempt string string

definition suspicious_agents :: "string list" where
  "suspicious_agents = [''sqlmap'', ''nikto'', ''metasploit'', ''nmap'', ''havij'']"

definition attack_patterns :: "(string \<times> string list) list" where
  "attack_patterns =
     [(''SQL Injection'', [''union select'', ''or 1=1'', ''drop table'', ''insert into'']),
      (''XSS'', [''<script>'', ''javascript:'', ''onload='', ''onerror='']),
      (''Path Traversal'', [''../'', [CHR ''.'', CHR ''.'', CHR 0x5C], ''/etc/passwd'']),
      (''Command Injection'', ['';ls'', ''|cat'', [CHR 0x60, CHR ''i'', CHR ''d'', CHR 0x60],
                               ''$(whoami)''])]"

definition agent_findings :: "stats \<Rightarrow> finding list" where
  "agent_findings st =
     [Suspicious_user_agent ua.
        agent \<leftarrow> suspicious_agents, ua \<leftarrow> counter_keys (user_agents st),
        contains (lower ua) agent]"

definition url_findings :: "stats \<Rightarrow> finding list" where
  "url_findings st =
     [Possible_attempt pattern_name page.
        (pattern_name, patterns) \<leftarrow> attack_patterns, page \<leftarrow> counter_keys (top_pages st),
        pattern \<leftarrow> patterns, contains (lower page) pattern]"

definition check_security_issues :: "stats \<Rightarrow> finding list" where
  "check_security_issues st = agent_findings st @ url_findings st"

section \<open>The report\<close>

text \<open>
  \<^verbatim>\<open>Counter.most_common()\<close> lists the entries by falling count, entries of equal count in
  the order of the counter (a stable sort); \<^verbatim>\<open>most_common(n)\<close> is its first \<open>n\<close> entries.
\<close>

definition most_common :: "counter \<Rightarrow> counter" where
  "most_common c = sort_key (\<lambda>kv. - snd kv) c"

definition most_common_n :: "nat \<Rightarrow> counter \<Rightarrow> counter" where
  "most_common_n n c = take n (most_common c)"

text \<open>\<^verbatim>\<open>_get_status_name(code)\<close>\<close>

definition status_names :: "(string \<times> string) list" where
  "status_names =
     [(''200'', ''OK''), (''301'', ''Moved Permanently''), (''302'', ''Found''),
      (''304'', ''Not Modified''), (''400'', ''Bad Request''), (''401'', ''Unauthorized''),
      (''403'', ''Forbidden''), (''404'', ''Not Found''), (''500'', ''Internal Server Error''),
      (''502'', ''Bad Gateway''), (''503'', ''Service Unavailable'')]"

definition get_status_name :: "string \<Rightarrow> string" where
  "get_status_name code = (case map_of status_names code of None \<Rightarrow> ''Unknown'' | Some n \<Rightarrow> n)"

text \<open>
  \<^verbatim>\<open>(count / self.stats['total_requests']) * 100\<close>. Python raises \<^verbatim>\<open>ZeroDivisionError\<close> for a
  zero divisor. The source computes the quotient in double precision and prints one decimal;
  the model keeps the exact quotient.
\<close>

definition percentage :: "int \<Rightarrow> int \<Rightarrow> py_error + rat" where
  "percentage n total_n =
     (if total_n = 0 then Inl ZeroDivisionError else Inr (of_int n / of_int total_n * 100))"

text \<open>One printed line for each entry of a counter: key, count and percentage.\<close>

fun percent_lines :: "int \<Rightarrow> counter \<Rightarrow> py_error + (string \<times> int \<times> rat) list" where
  "percent_lines total_n [] = Inr []"
| "percent_lines total_n ((k, n) # c) =
     (case percentage n total_n of
        Inl err \<Rightarrow> Inl err
      | Inr p \<Rightarrow> (case percent_lines total_n c of
                   Inl err \<Rightarrow> Inl err
                 | Inr ls \<Rightarrow> Inr ((k, n, p) # ls)))"

definition page_extensions :: "string list" where
  "page_extensions = [''.php'', ''.html'', ''.js'', ''.css'', ''.jpg'', ''.png'']"

text \<open>
  The section on 404 errors: present when the count of \<^verbatim>\<open>'404'\<close> is positive, with the top
  pages whose URL contains one of the extensions.
\<close>

definition not_found_section :: "stats \<Rightarrow> (int \<times> counter) option" where
  "not_found_section st =
     (let not_found_count = count_of (status_codes st) ''404'' in
      if 0 < not_found_count
      then Some (not_found_count,
                 filter (\<lambda>kv. list_ex (\<lambda>ext. contains (fst kv) ext) page_extensions)
                   (most_common_n 10 (top_pages st)))
      else None)"

record report_body =
  r_total :: int
  r_status :: "(string \<times> string \<times> int \<times> rat) list"
  r_not_found :: "(int \<times> counter) option"
  r_pages :: "(string \<times> int \<times> rat) list"
  r_ips :: "(string \<times> int \<times> rat) list"
  r_hours :: "(string \<times> int \<times> rat) list"
  r_browsers :: "(string \<times> int \<times> rat) list"
  r_security :: "finding list"

datatype report = No_valid_entries | Report report_body

text \<open>
  \<^verbatim>\<open>generate_report()\<close>: what is printed, or the error raised while printing. With no
  request counted it prints only that no valid entry was found, and returns.
\<close>

definition generate_report :: "stats \<Rightarrow> py_error + report" where
  "generate_report st =
     (let total_n = total_requests st in
      if total_n = 0 then Inr No_valid_entries
      else
        case percent_lines total_n (most_common (status_codes st)) of
          Inl err \<Rightarrow> Inl err
        | Inr sl \<Rightarrow>
        (case percent_lines total_n (most_common_n 10 (top_pages st)) of
          Inl err \<Rightarrow> Inl err
        | Inr pl \<Rightarrow>
        (case percent_lines total_n (most_common_n 10 (top_ips st)) of
          Inl err \<Rightarrow> Inl err
        | Inr il \<Rightarrow>
        (case percent_lines total_n (most_common_n 24 (hourly_activity st)) of
          Inl err \<Rightarrow> Inl err
        | Inr hl \<Rightarrow>
        (case percent_lines total_n (most_common (user_agents st)) of
          Inl err \<Rightarrow> Inl err
        | Inr bl \<Rightarrow>
            Inr (Report
              \<lparr>r_total = total_n,
               r_status = map (\<lambda>(code, n, p). (code, get_status_name code, n, p)) sl,
               r_not_found = not_found_section st,
               r_pages = pl, r_ips = il, r_hours = hl, r_browsers = bl,
               r_security = check_security_issues st\<rparr>))))))"

section \<open>The sample log\<close>

text \<open>
  The lines of the file that \<^verbatim>\<open>create_sample_log()\<close> writes, as reading the file yields
  them: each ends with a newline.
\<close>

definition create_sample_log :: "string list" where
  "create_sample_log = map (\<lambda>l. l @ [CHR 0x0A])
     [''192.168.1.100 - - [25/Dec/2023:10:15:32 +0000] \"GET /index.html HTTP/1.1\" 200 1524 \"https://example.com\" \"Mozilla/5.0 (Windows NT 10.0; Win64; x64) AppleWebKit/537.36\"'',
      ''192.168.1.101 - - [25/Dec/2023:10:15:33 +0000] \"GET /about.html HTTP/1.1\" 200 2341 \"https://example.com\" \"Mozilla/5.0 (Macintosh; Intel Mac OS X 10_15_7) AppleWebKit/537.36\"'',
      ''192.168.1.102 - - [25/Dec/2023:10:15:34 +0000] \"GET /contact.php HTTP/1.1\" 200 1876 \"-\" \"Mozilla/5.0 (X11; Linux x86_64) AppleWebKit/537.36\"'',
      ''192.168.1.103 - - [25/Dec/2023:10:15:35 +0000] \"GET /old-page.html HTTP/1.1\" 404 342 \"-\" \"Mozilla/5.0 (Windows NT 10.0; Win64; x64) Chrome/91.0.4472.124\"'',
      ''192.168.1.104 - - [25/Dec/2023:10:15:36 +0000] \"GET /admin/login HTTP/1.1\" 403 512 \"-\" \"Mozilla/5.0 (Windows NT 10.0; Win64; x64) Firefox/89.0\"'',
      ''192.168.1.105 - - [25/Dec/2023:10:15:37 +0000] \"GET /api/users HTTP/1.1\" 200 876 \"https://app.example.com\" \"Mozilla/5.0 (Macintosh; Intel Mac OS X 10_15_7) Safari/537.36\"'',
      ''192.168.1.100 - - [25/Dec/2023:10:15:38 +0000] \"GET /products/item123 HTTP/1.1\" 200 1543 \"https://example.com\" \"Mozilla/5.0 (Windows NT 10.0; Win64; x64) Edge/91.0.864.59\"'',
      ''192.168.1.106 - - [25/Dec/2023:10:15:39 +0000] \"GET /wp-admin HTTP/1.1\" 404 321 \"-\" \"sqlmap/1.4.2\"'',
      ''192.168.1.107 - - [25/Dec/2023:10:15:40 +0000] \"GET /search?q=<script>alert('xss')</script> HTTP/1.1\" 200 765 \"-\" \"Mozilla/5.0 (Windows NT 10.0; Win64; x64)\"'',
      ''192.168.1.108 - - [25/Dec/2023:10:15:41 +0000] \"GET /../../../etc/passwd HTTP/1.1\" 403 498 \"-\" \"Mozilla/5.0 (X11; Linux x86_64)\"'',
      ''192.168.1.109 - - [25/Dec/2023:10:15:42 +0000] \"POST /login HTTP/1.1\" 200 432 \"https://example.com\" \"Mozilla/5.0 (Windows NT 10.0; Win64; x64) Chrome/91.0.4472.124\"'',
      ''192.168.1.110 - - [25/Dec/2023:10:15:43 +0000] \"GET /images/logo.png HTTP/1.1\" 200 2345 \"https://example.com\" \"Mozilla/5.0 (Macintosh; Intel Mac OS X 10_15_7) AppleWebKit/537.36\"'']"

section \<open>Notions used in the statements\<close>

text \<open>\<^verbatim>\<open>sum(self.stats['status_codes'].values())\<close>\<close>

definition status_sum :: "stats \<Rightarrow> int" where
  "status_sum st = sum_list (counter_values (status_codes st))"

text \<open>
  A line that the loop of \<^verbatim>\<open>parse_log_file\<close> counts as a request: trimmed, it is not
  empty, and it matches the primary grammar or splits into at least seven parts.
\<close>

definition counted :: "string \<Rightarrow> bool" where
  "counted raw =
     (let line = strip raw in
      if line = [] then False
      else case log_pattern_match line of
             Some e \<Rightarrow> True
           | None \<Rightarrow> 7 \<le> length (split line))"

text \<open>
  Classification by a table of rules, each a list of words and a browser name: the first
  rule one of whose words occurs in the lowercased user agent gives the name, and no rule
  gives \<open>Other\<close>. \<open>spec_precedence\<close> is the order of the specification,
  \<open>source_precedence\<close> the order of the \<^verbatim>\<open>if\<close>/\<^verbatim>\<open>elif\<close> chain.
\<close>

fun first_match :: "(string list \<times> string) list \<Rightarrow> string \<Rightarrow> string" where
  "first_match [] ua = ''Other''"
| "first_match ((ws, name) # rules) ua =
     (if list_ex (contains ua) ws then name else first_match rules ua)"

definition spec_precedence :: "(string list \<times> string) list" where
  "spec_precedence =
     [([''bot'', ''crawler''], ''Bot/Crawler''), ([''edge''], ''Edge''),
      ([''chrome''], ''Chrome''), ([''firefox''], ''Firefox''), ([''safari''], ''Safari'')]"

definition source_precedence :: "(string list \<times> string) list" where
  "source_precedence =
     [([''chrome''], ''Chrome''), ([''firefox''], ''Firefox''), ([''safari''], ''Safari''),
      ([''edge''], ''Edge''), ([''bot'', ''crawler''], ''Bot/Crawler'')]"

text \<open>The names that \<open>browser_of\<close> can give: the keys of \<^verbatim>\<open>self.stats['user_agents']\<close>.\<close>

definition browser_names :: "string list" where
  "browser_names = [''Chrome'', ''Firefox'', ''Safari'', ''Edge'', ''Bot/Crawler'', ''Other'']"

text \<open>
  The number of the patterns of a category that occur in a lowercased URL, and the warnings
  that the two inner loops of \<^verbatim>\<open>_check_security_issues\<close> print for one category.
\<close>

definition hits :: "string list \<Rightarrow> string \<Rightarrow> nat" where
  "hits patterns page = length (filter (contains (lower page)) patterns)"

definition category_findings :: "string \<Rightarrow> string list \<Rightarrow> string list \<Rightarrow> finding list" where
  "category_findings pattern_name patterns pages =
     [Possible_attempt pattern_name page.
        page \<leftarrow> pages, pattern \<leftarrow> patterns, contains (lower page) pattern]"

text \<open>The number of capture groups of a pattern.\<close>

fun ngroups :: "item list \<Rightarrow> nat" where
  "ngroups [] = 0"
| "ngroups (Lit l # its) = ngroups its"
| "ngroups (Rep P n # its) = Suc (ngroups its)"
| "ngroups (Alt alts # its) = Suc (ngroups its)"

text \<open>
  Lines used as examples: the first, third, eighth and tenth line of the sample log, a line
  whose timestamp is no date, and a line whose user agent is that of a Chrome browser, which
  names Safari too.
\<close>

definition first_line :: string where
  "first_line = ''192.168.1.100 - - [25/Dec/2023:10:15:32 +0000] \"GET /index.html HTTP/1.1\" 200 1524 \"https://example.com\" \"Mozilla/5.0 (Windows NT 10.0; Win64; x64) AppleWebKit/537.36\"''"

definition first_entry :: entry where
  "first_entry =
     \<lparr>ip = ''192.168.1.100'', timestamp = ''25/Dec/2023:10:15:32 +0000'',
      method_field = ''GET'', url = ''/index.html'', protocol = ''HTTP/1.1'',
      status = ''200'', size_field = ''1524'', referrer = ''https://example.com'',
      user_agent = ''Mozilla/5.0 (Windows NT 10.0; Win64; x64) AppleWebKit/537.36''\<rparr>"

definition dash_line :: string where
  "dash_line = ''192.168.1.102 - - [25/Dec/2023:10:15:34 +0000] \"GET /contact.php HTTP/1.1\" 200 1876 \"-\" \"Mozilla/5.0 (X11; Linux x86_64) AppleWebKit/537.36\"''"

definition sqlmap_line :: string where
  "sqlmap_line = ''192.168.1.106 - - [25/Dec/2023:10:15:39 +0000] \"GET /wp-admin HTTP/1.1\" 404 321 \"-\" \"sqlmap/1.4.2\"''"

definition traversal_line :: string where
  "traversal_line = ''192.168.1.108 - - [25/Dec/2023:10:15:41 +0000] \"GET /../../../etc/passwd HTTP/1.1\" 403 498 \"-\" \"Mozilla/5.0 (X11; Linux x86_64)\"''"

definition undated_line :: string where
  "undated_line = ''10.0.0.1 - - [yesterday] \"GET /index.html HTTP/1.1\" 200 5 \"-\" \"-\"''"

definition chrome_agent :: string where
  "chrome_agent = ''Mozilla/5.0 (Windows NT 10.0; Win64; x64) AppleWebKit/537.36 (KHTML, like Gecko) Chrome/91.0.4472.124 Safari/537.36''"

definition chrome_line :: string where
  "chrome_line = ''203.0.113.7 - - [25/Dec/2023:10:15:35 +0000] \"GET / HTTP/1.1\" 200 1024 \"-\" \"'' @ chrome_agent @ ''\"''"

definition chrome_entry :: entry where
  "chrome_entry =
     \<lparr>ip = ''203.0.113.7'', timestamp = ''25/Dec/2023:10:15:35 +0000'',
      method_field = ''GET'', url = ''/'', protocol = ''HTTP/1.1'',
      status = ''200'', size_field = ''1024'', referrer = ''-'',
      user_agent = chrome_agent\<rparr>"

text \<open>User agents used as examples: a crawler and an old Edge, both naming Chrome.\<close>

definition googlebot_agent :: string where
  "googlebot_agent = ''Mozilla/5.0 (compatible; Googlebot/2.1; +http://www.google.com/bot.html) Chrome/99.0.4844.84 Safari/537.36''"

definition edge_agent :: string where
  "edge_agent = ''Mozilla/5.0 (Windows NT 10.0) Chrome/64.0.3282.140 Safari/537.36 Edge/17.17134''"

definition firefox_agent :: string where
  "firefox_agent = ''Mozilla/5.0 (Windows NT 10.0; Win64; x64) Firefox/89.0''"

definition safari_agent :: string where
  "safari_agent = ''Mozilla/5.0 (Macintosh; Intel Mac OS X 10_15_7) Safari/537.36''"

definition plain_edge_agent :: string where
  "plain_edge_agent = ''Mozilla/5.0 (Windows NT 10.0; Win64; x64) Edge/91.0.864.59''"

definition crawler_agent :: string where
  "crawler_agent = ''Googlebot/2.1 (+http://www.google.com/bot.html)''"

definition curl_agent :: string where
  "curl_agent = ''curl/8.4.0''"

section \<open>Counters\<close>

lemma count_of_incr: "count_of (incr k c) k' = count_of c k' + (if k' = k then 1 else 0)"
  by (induction c) (auto simp: count_of_def)

lemma sum_values_incr: "sum_list (counter_values (incr k c)) = sum_list (counter_values c) + 1"
  by (induction c) (auto simp: counter_values_def)

lemma keys_incr_list:
  "counter_keys (incr k c) =
     (if k \<in> set (counter_keys c) then counter_keys c else counter_keys c @ [k])"
  by (induction c) (force simp: counter_keys_def)+

lemma keys_incr: "set (counter_keys (incr k c)) = insert k (set (counter_keys c))"
  by (auto simp: keys_incr_list)

section \<open>What one ingestion does to each statistic\<close>

lemma process_log_entry_total:
  "total_requests (process_log_entry e st) = total_requests st + 1"
  by (simp add: process_log_entry_def Let_def split: option.split)

lemma process_log_entry_status:
  "status_codes (process_log_entry e st) = incr (status e) (status_codes st)"
  by (simp add: process_log_entry_def Let_def split: option.split)

lemma process_log_entry_pages:
  "top_pages (process_log_entry e st) = incr (url e) (top_pages st)"
  by (simp add: process_log_entry_def Let_def split: option.split)

lemma process_log_entry_ips:
  "top_ips (process_log_entry e st) = incr (ip e) (top_ips st)"
  by (simp add: process_log_entry_def Let_def split: option.split)

lemma process_log_entry_hours:
  "hourly_activity (process_log_entry e st) =
     (case hour_of (timestamp e) of
        None \<Rightarrow> hourly_activity st
      | Some h \<Rightarrow> incr h (hourly_activity st))"
  by (simp add: process_log_entry_def Let_def split: option.split)

lemma process_log_entry_agents:
  "user_agents (process_log_entry e st) =
     (if user_agent e \<noteq> [] \<and> user_agent e \<noteq> ''-''
      then incr (browser_of (user_agent e)) (user_agents st) else user_agents st)"
  by (simp add: process_log_entry_def Let_def split: option.split)

lemma process_log_entry_referrers:
  "referrers (process_log_entry e st) =
     (if referrer e \<noteq> [] \<and> referrer e \<noteq> ''-''
      then incr (referrer e) (referrers st) else referrers st)"
  by (simp add: process_log_entry_def Let_def split: option.split)

lemma parse_fallback_total:
  "total_requests (parse_fallback line st) =
     (if 7 \<le> length (split line) then total_requests st + 1 else total_requests st)"
  by (simp add: parse_fallback_def Let_def split: option.split)

lemma parse_fallback_status:
  "status_codes (parse_fallback line st) =
     (if 7 \<le> length (split line)
      then (case find three_digits (split line) of
              None \<Rightarrow> status_codes st
            | Some part \<Rightarrow> incr part (status_codes st))
      else status_codes st)"
  by (simp add: parse_fallback_def Let_def split: option.split)

lemma parse_fallback_referrers: "referrers (parse_fallback line st) = referrers st"
  by (simp add: parse_fallback_def Let_def split: option.split)

lemma parse_fallback_agents: "user_agents (parse_fallback line st) = user_agents st"
  by (simp add: parse_fallback_def Let_def split: option.split)

section \<open>The primary grammar always yields its nine groups\<close>

lemma match_group_count:
  "\<forall>gs r. match_here its s = Some (gs, r) \<longrightarrow> length gs = ngroups its"
  "\<forall>gs r. try_len its s n k = Some (gs, r) \<longrightarrow> length gs = Suc (ngroups its)"
  "\<forall>gs r. try_alts its s alts = Some (gs, r) \<longrightarrow> length gs = Suc (ngroups its)"
proof (induction its s and its s n k and its s alts rule: match_here_try_len_try_alts.induct)
  case (1 s)
  then show ?case by simp
next
  case (2 l its s)
  then show ?case by (simp split: if_splits)
next
  case (3 P n its s)
  then show ?case by simp
next
  case (4 alts its s)
  then show ?case by simp
next
  case (5 its s n k)
  show ?case
  proof (intro allI impI)
    fix gs r
    assume a: "try_len its s n k = Some (gs, r)"
    show "length gs = Suc (ngroups its)"
    proof (cases "k < n")
      case True
      with a show ?thesis by (subst (asm) try_len.simps) simp
    next
      case False
      show ?thesis
      proof (cases "match_here its (drop k s)")
        case None
        with a False 5 show ?thesis
          by (subst (asm) try_len.simps) (simp split: if_splits)
      next
        case (Some p)
        with a False 5 show ?thesis
          by (subst (asm) try_len.simps) (auto split: prod.splits)
      qed
    qed
  qed
next
  case (6 its s)
  then show ?case by simp
next
  case (7 its s a alts)
  then show ?case by (auto split: if_splits option.splits)
qed

lemma groupdict_of_nine: "length gs = 9 \<Longrightarrow> groupdict gs \<noteq> None"
  by (auto simp: groupdict_def split: list.splits)

text \<open>
  A match of the pattern always has its nine groups, so \<open>log_pattern_match\<close> is \<open>None\<close>
  exactly when \<^verbatim>\<open>self.log_pattern.match(line)\<close> is.
\<close>

lemma log_pattern_groups: "ngroups log_pattern = 9"
  by (simp add: log_pattern_def)

lemma log_pattern_match_None:
  "(log_pattern_match line = None) = (match_here log_pattern line = None)"
  using match_group_count(1) [of log_pattern line] groupdict_of_nine
  by (auto simp: log_pattern_match_def log_pattern_groups split: option.splits)

lemma log_pattern_no_empty: "log_pattern_match [] = None"
  by (simp add: log_pattern_match_def log_pattern_def)

lemma process_line_match:
  "log_pattern_match (strip raw) = Some e \<Longrightarrow> process_line raw st = process_log_entry e st"
  using log_pattern_no_empty by (auto simp: process_line_def Let_def)

section \<open>No exception leaves the loop\<close>

lemma groupdict_Some:
  "groupdict gs = Some e \<Longrightarrow>
   \<exists>g1 g2 g3 g4 g5 g6 g7 g8 g9. gs = [g1, g2, g3, g4, g5, g6, g7, g8, g9]
     \<and> e = \<lparr>ip = g1, timestamp = g2, method_field = g3, url = g4, protocol = g5,
            status = g6, size_field = g7, referrer = g8, user_agent = g9\<rparr>"
  by (auto simp: groupdict_def split: list.splits)

text \<open>
  On the dictionary of a match every lookup finds its key, and the \<^verbatim>\<open>except\<close> catches what
  the \<^verbatim>\<open>try\<close> raises: \<^verbatim>\<open>_process_log_entry\<close> raises nothing and gives the statistics of
  \<open>process_log_entry\<close>.
\<close>

lemma process_log_entry_raising_ok:
  assumes "groupdict gs = Some e"
  shows "process_log_entry_raising (groupdict_items gs) st = Inr (process_log_entry e st)"
proof -
  from assms obtain g1 g2 g3 g4 g5 g6 g7 g8 g9
    where gs: "gs = [g1, g2, g3, g4, g5, g6, g7, g8, g9]"
      and e: "e = \<lparr>ip = g1, timestamp = g2, method_field = g3, url = g4, protocol = g5,
                  status = g6, size_field = g7, referrer = g8, user_agent = g9\<rparr>"
    using groupdict_Some by blast
  have look: "getitem (groupdict_items gs) ''status'' = Inr g6"
    "getitem (groupdict_items gs) ''url'' = Inr g4"
    "getitem (groupdict_items gs) ''ip'' = Inr g1"
    "getitem (groupdict_items gs) ''timestamp'' = Inr g2"
    "getitem (groupdict_items gs) ''user_agent'' = Inr g9"
    "getitem (groupdict_items gs) ''referrer'' = Inr g8"
    by (simp_all add: gs getitem_def groupdict_items_def group_names_def)
  show ?thesis
    by (simp add: process_log_entry_raising_def process_log_entry_def hour_try_def hour_of_def
          look e Let_def split: list.split option.split)
qed

lemma process_line_raising_ok: "process_line_raising raw st = Inr (process_line raw st)"
proof (cases "strip raw = []")
  case True
  then show ?thesis by (simp add: process_line_raising_def process_line_def)
next
  case False
  show ?thesis
  proof (cases "match_here log_pattern (strip raw)")
    case None
    then have "log_pattern_match (strip raw) = None"
      by (simp add: log_pattern_match_None)
    with None False show ?thesis
      by (simp add: process_line_raising_def process_line_def)
  next
    case (Some found)
    obtain gs r where found: "found = (gs, r)" by (cases found)
    from Some found have "log_pattern_match (strip raw) \<noteq> None"
      by (simp add: log_pattern_match_None)
    then obtain e where e: "log_pattern_match (strip raw) = Some e" by blast
    with Some found have "groupdict gs = Some e"
      by (simp add: log_pattern_match_def)
    then have "process_log_entry_raising (groupdict_items gs) st = Inr (process_log_entry e st)"
      by (rule process_log_entry_raising_ok)
    with Some found e False show ?thesis
      by (simp add: process_line_raising_def process_line_def)
  qed
qed

lemma read_lines_ok: "read_lines ls st = Inr (process_lines ls st)"
  by (induction ls arbitrary: st) (simp_all add: process_line_raising_ok)

lemma parse_log_file_None: "parse_log_file None st = (False, st)"
  by (simp add: parse_log_file_def)

lemma parse_log_file_Some:
  "parse_log_file (Some file_lines) st = (True, process_lines file_lines st)"
  by (simp add: parse_log_file_def read_lines_ok)

section \<open>The status counts never exceed the request count\<close>

lemma process_line_keeps_bound:
  "status_sum st \<le> total_requests st \<Longrightarrow>
   status_sum (process_line raw st) \<le> total_requests (process_line raw st)"
  by (simp add: process_line_def Let_def status_sum_def process_log_entry_total
        process_log_entry_status parse_fallback_total parse_fallback_status sum_values_incr
      split: option.split)

lemma process_lines_keep_bound:
  "status_sum st \<le> total_requests st \<Longrightarrow>
   status_sum (process_lines ls st) \<le> total_requests (process_lines ls st)"
  by (induction ls arbitrary: st) (simp_all add: process_line_keeps_bound)

text \<open>
  C5. After a run over any file, from the fresh statistics, the sum of the status counts is
  at most the number of requests; and the bound, once it holds, still holds after one more
  line (whether the line matches the grammar, goes through the fallback, or is skipped) and
  after any further lines.
\<close>

theorem status_sum_le_total:
  "status_sum (snd (parse_log_file log_file init_stats))
     \<le> total_requests (snd (parse_log_file log_file init_stats))
   \<and> (status_sum st \<le> total_requests st \<longrightarrow>
        status_sum (process_line raw st) \<le> total_requests (process_line raw st))
   \<and> (status_sum st \<le> total_requests st \<longrightarrow>
        status_sum (process_lines ls st) \<le> total_requests (process_lines ls st))"
proof -
  have init: "status_sum init_stats \<le> total_requests init_stats"
    by (simp add: status_sum_def init_stats_def counter_values_def)
  have "status_sum (snd (parse_log_file log_file init_stats))
          \<le> total_requests (snd (parse_log_file log_file init_stats))"
    using init by (cases log_file) (simp_all add: parse_log_file_None parse_log_file_Some process_lines_keep_bound)
  then show ?thesis
    using process_line_keeps_bound process_lines_keep_bound by blast
qed

theorem status_sum_le_total_witness:
  "status_sum init_stats \<le> total_requests init_stats
   \<and> status_sum (process_line ''10.0.0.1 user - GET /index.html 200 512'' init_stats)
       \<le> total_requests (process_line ''10.0.0.1 user - GET /index.html 200 512'' init_stats)
   \<and> status_sum (process_lines [''10.0.0.1 user - GET /index.html 200 512'', ''bad line''] init_stats)
       \<le> total_requests
            (process_lines [''10.0.0.1 user - GET /index.html 200 512'', ''bad line''] init_stats)
   \<and> status_sum (snd (parse_log_file (Some [''bad line'']) init_stats))
       \<le> total_requests (snd (parse_log_file (Some [''bad line'']) init_stats))"
proof -
  have h: "status_sum init_stats \<le> total_requests init_stats"
    by (simp add: status_sum_def init_stats_def counter_values_def)
  show ?thesis
    using h status_sum_le_total [of "Some [''bad line'']" init_stats
            "''10.0.0.1 user - GET /index.html 200 512''"
            "[''10.0.0.1 user - GET /index.html 200 512'', ''bad line'']"]
    by blast
qed

section \<open>The example lines\<close>

lemma first_line_entry: "log_pattern_match (strip first_line) = Some first_entry"
  by code_simp

lemma first_entry_facts:
  "hour_of (timestamp first_entry) = Some ''10:00''
   \<and> browser_of (user_agent first_entry) = ''Other''"
  by code_simp

lemma chrome_line_entry: "log_pattern_match (strip chrome_line) = Some chrome_entry"
  by code_simp

lemma chrome_agent_facts:
  "contains (lower chrome_agent) ''chrome'' \<and> contains (lower chrome_agent) ''safari''"
  by code_simp

lemma dash_line_referrer:
  "map_option referrer (log_pattern_match (strip dash_line)) = Some ''-''"
  by code_simp

section \<open>The referrers\<close>

lemma process_line_referrers:
  "referrers (process_line raw st) =
     (case log_pattern_match (strip raw) of
        Some e \<Rightarrow> if referrer e \<noteq> [] \<and> referrer e \<noteq> ''-''
                  then incr (referrer e) (referrers st) else referrers st
      | None \<Rightarrow> referrers st)"
  by (simp add: process_line_def Let_def log_pattern_no_empty process_log_entry_referrers
        parse_fallback_referrers split: option.split)

lemma process_line_keeps_referrers_clean:
  "''-'' \<notin> set (counter_keys (referrers st)) \<and> [] \<notin> set (counter_keys (referrers st)) \<Longrightarrow>
   ''-'' \<notin> set (counter_keys (referrers (process_line raw st)))
   \<and> [] \<notin> set (counter_keys (referrers (process_line raw st)))"
  by (auto simp: process_line_referrers keys_incr split: option.split)

lemma process_lines_keep_referrers_clean:
  "''-'' \<notin> set (counter_keys (referrers st)) \<and> [] \<notin> set (counter_keys (referrers st)) \<Longrightarrow>
   ''-'' \<notin> set (counter_keys (referrers (process_lines ls st)))
   \<and> [] \<notin> set (counter_keys (referrers (process_lines ls st)))"
proof (induction ls arbitrary: st)
  case Nil
  then show ?case by simp
next
  case (Cons raw rest)
  from Cons.prems have "''-'' \<notin> set (counter_keys (referrers (process_line raw st)))
     \<and> [] \<notin> set (counter_keys (referrers (process_line raw st)))"
    by (rule process_line_keeps_referrers_clean)
  then show ?case using Cons.IH by simp
qed

text \<open>
  C10. After a run over any file the referrer counter has neither the key \<open>-\<close> nor the
  empty key. One line keeps it so: the counter changes only for a line of the primary
  grammar whose referrer is neither empty nor \<open>-\<close>, and then by one count for that
  referrer; the fallback and a skipped line leave it as it is.
\<close>

theorem referrers_never_sentinel:
  "''-'' \<notin> set (counter_keys (referrers (snd (parse_log_file log_file init_stats))))
   \<and> [] \<notin> set (counter_keys (referrers (snd (parse_log_file log_file init_stats))))
   \<and> (''-'' \<notin> set (counter_keys (referrers st)) \<and> [] \<notin> set (counter_keys (referrers st)) \<longrightarrow>
        ''-'' \<notin> set (counter_keys (referrers (process_line raw st)))
        \<and> [] \<notin> set (counter_keys (referrers (process_line raw st))))
   \<and> referrers (process_line raw st) =
        (case log_pattern_match (strip raw) of
           Some e \<Rightarrow> if referrer e \<noteq> [] \<and> referrer e \<noteq> ''-''
                     then incr (referrer e) (referrers st) else referrers st
         | None \<Rightarrow> referrers st)"
proof -
  have init: "''-'' \<notin> set (counter_keys (referrers init_stats))
      \<and> [] \<notin> set (counter_keys (referrers init_stats))"
    by (simp add: init_stats_def counter_keys_def)
  have run: "''-'' \<notin> set (counter_keys (referrers (snd (parse_log_file log_file init_stats))))
      \<and> [] \<notin> set (counter_keys (referrers (snd (parse_log_file log_file init_stats))))"
  proof (cases log_file)
    case None
    then show ?thesis using init by (simp add: parse_log_file_None)
  next
    case (Some file_lines)
    then show ?thesis
      using process_lines_keep_referrers_clean [OF init, of file_lines]
      by (simp add: parse_log_file_Some)
  qed
  show ?thesis
    using run process_line_keeps_referrers_clean [of st raw] process_line_referrers [of raw st]
    by blast
qed

theorem referrers_never_sentinel_witness:
  "''-'' \<notin> set (counter_keys (referrers init_stats))
   \<and> [] \<notin> set (counter_keys (referrers init_stats))
   \<and> referrers (process_line dash_line init_stats) = []
   \<and> referrers (process_line first_line init_stats) = [(''https://example.com'', 1)]
   \<and> ''-'' \<notin> set (counter_keys (referrers (snd (parse_log_file (Some [dash_line]) init_stats))))"
proof -
  have clean: "''-'' \<notin> set (counter_keys (referrers init_stats))
      \<and> [] \<notin> set (counter_keys (referrers init_stats))"
    by (simp add: init_stats_def counter_keys_def)
  have dash: "referrers (process_line dash_line init_stats) = []"
    using referrers_never_sentinel [of "Some [dash_line]" init_stats dash_line]
      dash_line_referrer
    by (auto simp: init_stats_def split: option.splits)
  have first: "referrers (process_line first_line init_stats) = [(''https://example.com'', 1)]"
    using referrers_never_sentinel [of "Some [dash_line]" init_stats first_line]
    by (simp add: first_line_entry first_entry_def init_stats_def)
  show ?thesis
    using clean dash first referrers_never_sentinel [of "Some [dash_line]" init_stats dash_line]
    by blast
qed

section \<open>Ingesting a line twice\<close>

text \<open>
  C9. For a line that matches the primary grammar, each ingestion adds exactly 1 to the
  request count and to the count of the line's status, URL and address, of its hour when
  the timestamp gives one, of its browser when the user agent is present, and of its
  referrer when that is present; so two ingestions add exactly 2 to each.
\<close>

theorem ingesting_twice_adds_two:
  assumes "log_pattern_match (strip raw) = Some e"
  shows "total_requests (process_line raw st) = total_requests st + 1
   \<and> total_requests (process_line raw (process_line raw st)) = total_requests st + 2
   \<and> count_of (status_codes (process_line raw st)) (status e)
        = count_of (status_codes st) (status e) + 1
   \<and> count_of (status_codes (process_line raw (process_line raw st))) (status e)
        = count_of (status_codes st) (status e) + 2
   \<and> count_of (top_pages (process_line raw st)) (url e) = count_of (top_pages st) (url e) + 1
   \<and> count_of (top_pages (process_line raw (process_line raw st))) (url e)
        = count_of (top_pages st) (url e) + 2
   \<and> count_of (top_ips (process_line raw st)) (ip e) = count_of (top_ips st) (ip e) + 1
   \<and> count_of (top_ips (process_line raw (process_line raw st))) (ip e)
        = count_of (top_ips st) (ip e) + 2
   \<and> (\<forall>h. hour_of (timestamp e) = Some h \<longrightarrow>
          count_of (hourly_activity (process_line raw st)) h
            = count_of (hourly_activity st) h + 1
        \<and> count_of (hourly_activity (process_line raw (process_line raw st))) h
            = count_of (hourly_activity st) h + 2)
   \<and> (user_agent e \<noteq> [] \<and> user_agent e \<noteq> ''-'' \<longrightarrow>
          count_of (user_agents (process_line raw st)) (browser_of (user_agent e))
            = count_of (user_agents st) (browser_of (user_agent e)) + 1
        \<and> count_of (user_agents (process_line raw (process_line raw st)))
             (browser_of (user_agent e))
            = count_of (user_agents st) (browser_of (user_agent e)) + 2)
   \<and> (referrer e \<noteq> [] \<and> referrer e \<noteq> ''-'' \<longrightarrow>
          count_of (referrers (process_line raw st)) (referrer e)
            = count_of (referrers st) (referrer e) + 1
        \<and> count_of (referrers (process_line raw (process_line raw st))) (referrer e)
            = count_of (referrers st) (referrer e) + 2)"
proof -
  have step: "process_line raw s = process_log_entry e s" for s
    using assms by (rule process_line_match)
  show ?thesis
    unfolding step
    by (simp add: process_log_entry_total process_log_entry_status process_log_entry_pages
          process_log_entry_ips process_log_entry_hours process_log_entry_agents
          process_log_entry_referrers count_of_incr)
qed

theorem ingesting_twice_adds_two_witness:
  "log_pattern_match (strip first_line) = Some first_entry
   \<and> total_requests (process_line first_line (process_line first_line init_stats)) = 2
   \<and> count_of (status_codes (process_line first_line (process_line first_line init_stats)))
        ''200'' = 2
   \<and> count_of (top_pages (process_line first_line (process_line first_line init_stats)))
        ''/index.html'' = 2
   \<and> count_of (top_ips (process_line first_line (process_line first_line init_stats)))
        ''192.168.1.100'' = 2
   \<and> count_of (hourly_activity (process_line first_line (process_line first_line init_stats)))
        ''10:00'' = 2
   \<and> count_of (user_agents (process_line first_line (process_line first_line init_stats)))
        ''Other'' = 2
   \<and> count_of (referrers (process_line first_line (process_line first_line init_stats)))
        ''https://example.com'' = 2"
proof -
  have fields: "status first_entry = ''200'' \<and> url first_entry = ''/index.html''
      \<and> ip first_entry = ''192.168.1.100'' \<and> referrer first_entry = ''https://example.com''
      \<and> user_agent first_entry \<noteq> [] \<and> user_agent first_entry \<noteq> ''-''"
    by (simp add: first_entry_def)
  have fresh: "total_requests init_stats = 0 \<and> count_of (status_codes init_stats) k = 0
      \<and> count_of (top_pages init_stats) k = 0 \<and> count_of (top_ips init_stats) k = 0
      \<and> count_of (hourly_activity init_stats) k = 0 \<and> count_of (user_agents init_stats) k = 0
      \<and> count_of (referrers init_stats) k = 0" for k
    by (simp add: init_stats_def count_of_def)
  show ?thesis
    using ingesting_twice_adds_two [OF first_line_entry, of init_stats]
      first_line_entry first_entry_facts fields fresh
    by simp
qed

section \<open>Chrome before Safari\<close>

lemma chrome_not_sentinel:
  "contains (lower ua) ''chrome'' \<Longrightarrow> ua \<noteq> [] \<and> ua \<noteq> ''-''"
  by (auto simp: lower_def startswith_def)

text \<open>
  C6. A user agent that contains both \<open>chrome\<close> and \<open>safari\<close>, in any case of the
  letters, is classified as Chrome and not as Safari; a line of the primary grammar with
  such a user agent adds one to the count of Chrome and leaves the count of Safari.
\<close>

theorem chrome_wins_over_safari:
  assumes "contains (lower (user_agent e)) ''chrome''"
      and "contains (lower (user_agent e)) ''safari''"
  shows "browser_of (user_agent e) = ''Chrome''
   \<and> browser_of (user_agent e) \<noteq> ''Safari''
   \<and> (log_pattern_match (strip raw) = Some e \<longrightarrow>
        user_agents (process_line raw st) = incr ''Chrome'' (user_agents st)
        \<and> count_of (user_agents (process_line raw st)) ''Safari''
            = count_of (user_agents st) ''Safari'')"
proof -
  have b: "browser_of (user_agent e) = ''Chrome''"
    using assms(1) by (simp add: browser_of_def Let_def)
  have present: "user_agent e \<noteq> [] \<and> user_agent e \<noteq> ''-''"
    using assms(1) by (rule chrome_not_sentinel)
  have "user_agents (process_line raw st) = incr ''Chrome'' (user_agents st)"
    if "log_pattern_match (strip raw) = Some e"
    using that present b by (simp add: process_line_match process_log_entry_agents)
  then show ?thesis
    using b by (simp add: count_of_incr)
qed

theorem chrome_wins_over_safari_witness:
  "contains (lower chrome_agent) ''chrome'' \<and> contains (lower chrome_agent) ''safari''
   \<and> log_pattern_match (strip chrome_line) = Some chrome_entry
   \<and> browser_of chrome_agent = ''Chrome''
   \<and> user_agents (process_line chrome_line init_stats) = [(''Chrome'', 1)]"
proof -
  have ua: "user_agent chrome_entry = chrome_agent"
    by (simp add: chrome_entry_def)
  show ?thesis
    using chrome_wins_over_safari [of chrome_entry chrome_line init_stats]
      chrome_agent_facts chrome_line_entry ua
    by (simp add: init_stats_def)
qed

section \<open>Failure of a run, and the report on no data\<close>

lemma percent_lines_value:
  "total_n \<noteq> 0 \<Longrightarrow>
   percent_lines total_n c = Inr (map (\<lambda>(k, n). (k, n, of_int n / of_int total_n * 100)) c)"
  by (induction c) (auto simp: percentage_def)

lemma percent_lines_zero: "c \<noteq> [] \<Longrightarrow> percent_lines 0 c = Inl ZeroDivisionError"
  by (cases c) (auto simp: percentage_def)

lemma generate_report_nonzero:
  assumes "total_requests st \<noteq> 0"
  shows "generate_report st =
     Inr (Report
       \<lparr>r_total = total_requests st,
        r_status = map (\<lambda>(code, n). (code, get_status_name code, n,
                                       of_int n / of_int (total_requests st) * 100))
                     (most_common (status_codes st)),
        r_not_found = not_found_section st,
        r_pages = map (\<lambda>(k, n). (k, n, of_int n / of_int (total_requests st) * 100))
                    (most_common_n 10 (top_pages st)),
        r_ips = map (\<lambda>(k, n). (k, n, of_int n / of_int (total_requests st) * 100))
                  (most_common_n 10 (top_ips st)),
        r_hours = map (\<lambda>(k, n). (k, n, of_int n / of_int (total_requests st) * 100))
                    (most_common_n 24 (hourly_activity st)),
        r_browsers = map (\<lambda>(k, n). (k, n, of_int n / of_int (total_requests st) * 100))
                       (most_common (user_agents st)),
        r_security = check_security_issues st\<rparr>)"
  using assms
  by (simp add: generate_report_def Let_def percent_lines_value case_prod_unfold comp_def)

lemma generate_report_zero:
  "(generate_report st = Inr No_valid_entries) = (total_requests st = 0)"
proof (cases "total_requests st = 0")
  case True
  then show ?thesis by (simp add: generate_report_def)
next
  case False
  then show ?thesis by (simp add: generate_report_nonzero)
qed

lemma undated_line_facts:
  "map_option fst (match_here log_pattern (strip undated_line))
     = Some [''10.0.0.1'', ''yesterday'', ''GET'', ''/index.html'', ''HTTP/1.1'', ''200'', ''5'',
             ''-'', ''-'']
   \<and> hour_try (groupdict_items [''10.0.0.1'', ''yesterday'', ''GET'', ''/index.html'',
         ''HTTP/1.1'', ''200'', ''5'', ''-'', ''-'']) init_stats = Inl ValueError
   \<and> process_line undated_line init_stats
       = init_stats\<lparr>total_requests := 1, status_codes := [(''200'', 1)],
           top_pages := [(''/index.html'', 1)], top_ips := [(''10.0.0.1'', 1)]\<rparr>
   \<and> process_lines [''   '', ''not a log line''] init_stats = init_stats"
  by code_simp

text \<open>
  C8. \<^verbatim>\<open>parse_log_file\<close> returns \<^verbatim>\<open>False\<close> exactly when the file cannot be opened. For a file
  that can, whatever its lines, no exception leaves the loop, and the function returns
  \<^verbatim>\<open>True\<close> with the statistics of the lines; an empty file leaves the fresh statistics, with
  no request and every counter empty. The report is the notice that no valid entry was
  found exactly when no request was counted; otherwise it is the full report, each
  percentage the count divided by the positive number of requests. That division would
  raise for a divisor of zero, and the report never ends in an exception.
\<close>

theorem run_fails_only_without_source:
  "(fst (parse_log_file log_file st) = False) = (log_file = None)
   \<and> read_lines file_lines st = Inr (process_lines file_lines st)
   \<and> parse_log_file (Some file_lines) st = (True, process_lines file_lines st)
   \<and> parse_log_file (Some []) init_stats = (True, init_stats)
   \<and> total_requests init_stats = 0
   \<and> status_codes init_stats = [] \<and> top_pages init_stats = [] \<and> top_ips init_stats = []
   \<and> hourly_activity init_stats = [] \<and> user_agents init_stats = []
   \<and> referrers init_stats = []
   \<and> generate_report init_stats = Inr No_valid_entries
   \<and> (total_requests st = 0 \<longrightarrow> generate_report st = Inr No_valid_entries)
   \<and> (generate_report st = Inr No_valid_entries) = (total_requests st = 0)
   \<and> (total_requests st \<noteq> 0 \<longrightarrow>
        generate_report st =
          Inr (Report
            \<lparr>r_total = total_requests st,
             r_status = map (\<lambda>(code, n). (code, get_status_name code, n,
                                            of_int n / of_int (total_requests st) * 100))
                          (most_common (status_codes st)),
             r_not_found = not_found_section st,
             r_pages = map (\<lambda>(k, n). (k, n, of_int n / of_int (total_requests st) * 100))
                         (most_common_n 10 (top_pages st)),
             r_ips = map (\<lambda>(k, n). (k, n, of_int n / of_int (total_requests st) * 100))
                       (most_common_n 10 (top_ips st)),
             r_hours = map (\<lambda>(k, n). (k, n, of_int n / of_int (total_requests st) * 100))
                         (most_common_n 24 (hourly_activity st)),
             r_browsers = map (\<lambda>(k, n). (k, n, of_int n / of_int (total_requests st) * 100))
                            (most_common (user_agents st)),
             r_security = check_security_issues st\<rparr>))
   \<and> percentage n 0 = Inl ZeroDivisionError
   \<and> (\<forall>err. generate_report st \<noteq> Inl err)
   \<and> generate_report st \<noteq> Inl ZeroDivisionError
   \<and> (\<exists>r. generate_report st = Inr r)"
proof -
  have run: "(fst (parse_log_file log_file st) = False) = (log_file = None)"
    by (cases log_file) (simp_all add: parse_log_file_None parse_log_file_Some)
  have fresh: "generate_report init_stats = Inr No_valid_entries"
    by (simp add: generate_report_zero init_stats_def)
  have defined: "\<exists>r. generate_report st = Inr r"
  proof (cases "total_requests st = 0")
    case True
    then show ?thesis by (simp add: generate_report_def)
  next
    case False
    then show ?thesis by (simp add: generate_report_nonzero)
  qed
  then have no_error: "\<forall>err. generate_report st \<noteq> Inl err"
    by auto
  have nonzero: "total_requests st \<noteq> 0 \<longrightarrow>
        generate_report st =
          Inr (Report
            \<lparr>r_total = total_requests st,
             r_status = map (\<lambda>(code, n). (code, get_status_name code, n,
                                            of_int n / of_int (total_requests st) * 100))
                          (most_common (status_codes st)),
             r_not_found = not_found_section st,
             r_pages = map (\<lambda>(k, n). (k, n, of_int n / of_int (total_requests st) * 100))
                         (most_common_n 10 (top_pages st)),
             r_ips = map (\<lambda>(k, n). (k, n, of_int n / of_int (total_requests st) * 100))
                       (most_common_n 10 (top_ips st)),
             r_hours = map (\<lambda>(k, n). (k, n, of_int n / of_int (total_requests st) * 100))
                         (most_common_n 24 (hourly_activity st)),
             r_browsers = map (\<lambda>(k, n). (k, n, of_int n / of_int (total_requests st) * 100))
                            (most_common (user_agents st)),
             r_security = check_security_issues st\<rparr>)"
    using generate_report_nonzero by blast
  have zero: "(generate_report st = Inr No_valid_entries) = (total_requests st = 0)"
    by (rule generate_report_zero)
  have init: "total_requests init_stats = 0
     \<and> status_codes init_stats = [] \<and> top_pages init_stats = [] \<and> top_ips init_stats = []
     \<and> hourly_activity init_stats = [] \<and> user_agents init_stats = []
     \<and> referrers init_stats = []"
    by (simp add: init_stats_def)
  have empty: "parse_log_file (Some []) init_stats = (True, init_stats)"
    by (simp add: parse_log_file_Some)
  have division: "percentage n 0 = Inl ZeroDivisionError"
    by (simp add: percentage_def)
  show ?thesis
    using run read_lines_ok [of file_lines st] parse_log_file_Some [of file_lines st] empty init
      fresh zero nonzero division no_error defined
    by (intro conjI) (simp_all only: simp_thms)
qed

theorem run_fails_only_without_source_witness:
  "hour_try (groupdict_items [''10.0.0.1'', ''yesterday'', ''GET'', ''/index.html'',
       ''HTTP/1.1'', ''200'', ''5'', ''-'', ''-'']) init_stats = Inl ValueError
   \<and> parse_log_file (Some [undated_line]) init_stats
       = (True, init_stats\<lparr>total_requests := 1, status_codes := [(''200'', 1)],
            top_pages := [(''/index.html'', 1)], top_ips := [(''10.0.0.1'', 1)]\<rparr>)
   \<and> (\<exists>body. generate_report (snd (parse_log_file (Some [undated_line]) init_stats))
                 = Inr (Report body) \<and> r_total body = 1)
   \<and> parse_log_file (Some [''   '', ''not a log line'']) init_stats = (True, init_stats)
   \<and> generate_report (snd (parse_log_file (Some [''   '', ''not a log line'']) init_stats))
        = Inr No_valid_entries
   \<and> \<not> fst (parse_log_file None init_stats)"
proof -
  let ?counted = "init_stats\<lparr>total_requests := 1, status_codes := [(''200'', 1)],
      top_pages := [(''/index.html'', 1)], top_ips := [(''10.0.0.1'', 1)]\<rparr>"
  have one: "parse_log_file (Some [undated_line]) init_stats = (True, ?counted)"
    using run_fails_only_without_source [of "Some [undated_line]" init_stats "[undated_line]"]
      undated_line_facts
    by simp
  have positive: "total_requests ?counted \<noteq> 0"
    by simp
  have report: "\<exists>body. generate_report ?counted = Inr (Report body) \<and> r_total body = 1"
    using run_fails_only_without_source [of "Some []" ?counted "[]"] positive
    by simp
  have none: "parse_log_file (Some [''   '', ''not a log line'']) init_stats = (True, init_stats)"
    using run_fails_only_without_source [of "Some []" init_stats "[''   '', ''not a log line'']"]
      undated_line_facts
    by simp
  have notice: "generate_report init_stats = Inr No_valid_entries"
    using run_fails_only_without_source [of "Some []" init_stats "[]"]
    by simp
  have missing: "\<not> fst (parse_log_file None init_stats)"
    using run_fails_only_without_source [of None init_stats "[]"]
    by simp
  show ?thesis
    using undated_line_facts one report none notice missing
    by simp
qed

section \<open>Which lines are counted as requests\<close>

lemma process_line_total:
  "total_requests (process_line raw st) = total_requests st + (if counted raw then 1 else 0)"
  by (simp add: process_line_def counted_def Let_def process_log_entry_total
        parse_fallback_total split: option.split)

lemma process_lines_total:
  "total_requests (process_lines ls st) = total_requests st + int (length (filter counted ls))"
  by (induction ls arbitrary: st) (simp_all add: process_line_total)

text \<open>
  A line of seven parts, none of which looks like an address, a status or a URL, does not
  match the primary grammar and gives the fallback no field; it is counted all the same.
\<close>

theorem unextracted_line_counted:
  "strip ''a b c d e f g'' \<noteq> []
   \<and> log_pattern_match (strip ''a b c d e f g'') = None
   \<and> find looks_like_ip (split (strip ''a b c d e f g'')) = None
   \<and> find three_digits (split (strip ''a b c d e f g'')) = None
   \<and> find looks_like_url (split (strip ''a b c d e f g'')) = None
   \<and> total_requests (process_line ''a b c d e f g'' init_stats) = 1
   \<and> total_requests (snd (parse_log_file (Some [''a b c d e f g'']) init_stats)) = 1"
  by code_simp

text \<open>
  C3, as the code has it. The request count after a run is the number of lines that,
  trimmed, are not empty and either match the primary grammar or split into at least seven
  parts: each such line adds 1, whether or not the fallback extracts a field from it, and
  every other line adds 0.
\<close>

theorem total_requests_counts_lines:
  "total_requests (process_line raw st) = total_requests st + (if counted raw then 1 else 0)
   \<and> total_requests (process_lines ls st) = total_requests st + int (length (filter counted ls))
   \<and> total_requests (snd (parse_log_file (Some ls) init_stats))
        = int (length (filter counted ls))"
  by (simp add: process_line_total process_lines_total parse_log_file_Some init_stats_def)

lemma counted_examples:
  "counted ''a b c d e f g'' \<and> \<not> counted ''1.2.3.4 200 /index.html'' \<and> \<not> counted ''   ''
   \<and> counted first_line"
  by code_simp

theorem total_requests_counts_lines_witness:
  "total_requests (snd (parse_log_file
      (Some [''a b c d e f g'', ''1.2.3.4 200 /index.html'', ''   '', first_line]) init_stats)) = 2"
  using total_requests_counts_lines [of "''   ''" init_stats
      "[''a b c d e f g'', ''1.2.3.4 200 /index.html'', ''   '', first_line]"]
    counted_examples
  by simp

section \<open>The order of the browser tests\<close>

text \<open>
  A crawler and an old Edge, whose user agents name Chrome too, are classified as Chrome;
  the order of the specification gives Bot/Crawler and Edge.
\<close>

theorem browser_precedence_differs:
  "contains (lower googlebot_agent) ''bot'' \<and> contains (lower googlebot_agent) ''chrome''
   \<and> browser_of googlebot_agent = ''Chrome''
   \<and> first_match spec_precedence (lower googlebot_agent) = ''Bot/Crawler''
   \<and> contains (lower edge_agent) ''edge'' \<and> contains (lower edge_agent) ''chrome''
   \<and> browser_of edge_agent = ''Chrome''
   \<and> first_match spec_precedence (lower edge_agent) = ''Edge''"
  by code_simp

text \<open>
  C4, as the code has it. The browser of a user agent is found by substring tests on the
  lowercased user agent in the order chrome, firefox, safari, edge, bot or crawler, and is
  Other when none occurs; the first test that succeeds decides. So a user agent with
  \<open>chrome\<close> is Chrome whatever else it contains.
\<close>

theorem browser_of_source_order:
  "browser_of ua = first_match source_precedence (lower ua)
   \<and> (contains (lower ua) ''chrome'' \<longrightarrow> browser_of ua = ''Chrome'')
   \<and> (\<not> contains (lower ua) ''chrome'' \<and> contains (lower ua) ''firefox'' \<longrightarrow>
        browser_of ua = ''Firefox'')
   \<and> (\<not> contains (lower ua) ''chrome'' \<and> \<not> contains (lower ua) ''firefox''
        \<and> contains (lower ua) ''safari'' \<longrightarrow> browser_of ua = ''Safari'')
   \<and> (\<not> contains (lower ua) ''chrome'' \<and> \<not> contains (lower ua) ''firefox''
        \<and> \<not> contains (lower ua) ''safari'' \<and> contains (lower ua) ''edge'' \<longrightarrow>
        browser_of ua = ''Edge'')
   \<and> (\<not> contains (lower ua) ''chrome'' \<and> \<not> contains (lower ua) ''firefox''
        \<and> \<not> contains (lower ua) ''safari'' \<and> \<not> contains (lower ua) ''edge''
        \<and> (contains (lower ua) ''bot'' \<or> contains (lower ua) ''crawler'') \<longrightarrow>
        browser_of ua = ''Bot/Crawler'')
   \<and> (\<not> contains (lower ua) ''chrome'' \<and> \<not> contains (lower ua) ''firefox''
        \<and> \<not> contains (lower ua) ''safari'' \<and> \<not> contains (lower ua) ''edge''
        \<and> \<not> contains (lower ua) ''bot'' \<and> \<not> contains (lower ua) ''crawler'' \<longrightarrow>
        browser_of ua = ''Other'')"
  by (simp add: browser_of_def source_precedence_def Let_def)

lemma agent_examples:
  "contains (lower googlebot_agent) ''chrome'' \<and> contains (lower edge_agent) ''chrome''
   \<and> \<not> contains (lower firefox_agent) ''chrome'' \<and> contains (lower firefox_agent) ''firefox''
   \<and> \<not> contains (lower safari_agent) ''chrome'' \<and> \<not> contains (lower safari_agent) ''firefox''
   \<and> contains (lower safari_agent) ''safari''
   \<and> \<not> contains (lower plain_edge_agent) ''chrome''
   \<and> \<not> contains (lower plain_edge_agent) ''firefox''
   \<and> \<not> contains (lower plain_edge_agent) ''safari''
   \<and> contains (lower plain_edge_agent) ''edge''
   \<and> \<not> contains (lower crawler_agent) ''chrome'' \<and> \<not> contains (lower crawler_agent) ''firefox''
   \<and> \<not> contains (lower crawler_agent) ''safari'' \<and> \<not> contains (lower crawler_agent) ''edge''
   \<and> contains (lower crawler_agent) ''bot''
   \<and> \<not> contains (lower curl_agent) ''chrome'' \<and> \<not> contains (lower curl_agent) ''firefox''
   \<and> \<not> contains (lower curl_agent) ''safari'' \<and> \<not> contains (lower curl_agent) ''edge''
   \<and> \<not> contains (lower curl_agent) ''bot'' \<and> \<not> contains (lower curl_agent) ''crawler''"
  by code_simp

theorem browser_of_source_order_witness:
  "browser_of googlebot_agent = ''Chrome'' \<and> browser_of edge_agent = ''Chrome''
   \<and> browser_of firefox_agent = ''Firefox'' \<and> browser_of safari_agent = ''Safari''
   \<and> browser_of plain_edge_agent = ''Edge'' \<and> browser_of crawler_agent = ''Bot/Crawler''
   \<and> browser_of curl_agent = ''Other''"
proof -
  note order = browser_of_source_order [THEN conjunct2]
  have "browser_of googlebot_agent = ''Chrome''"
    using order [of googlebot_agent] agent_examples by simp
  moreover have "browser_of edge_agent = ''Chrome''"
    using order [of edge_agent] agent_examples by simp
  moreover have "browser_of firefox_agent = ''Firefox''"
    using order [of firefox_agent] agent_examples by simp
  moreover have "browser_of safari_agent = ''Safari''"
    using order [of safari_agent] agent_examples by simp
  moreover have "browser_of plain_edge_agent = ''Edge''"
    using order [of plain_edge_agent] agent_examples by simp
  moreover have "browser_of crawler_agent = ''Bot/Crawler''"
    using order [of crawler_agent] agent_examples by simp
  moreover have "browser_of curl_agent = ''Other''"
    using order [of curl_agent] agent_examples by simp
  ultimately show ?thesis by simp
qed

section \<open>How many warnings a URL gets\<close>

lemma url_findings_by_category:
  "url_findings st =
     concat (map (\<lambda>(pattern_name, patterns).
                    category_findings pattern_name patterns (counter_keys (top_pages st)))
               attack_patterns)"
  by (simp add: url_findings_def category_findings_def)

lemma count_page_findings:
  "count_list (concat (map (\<lambda>pattern. if contains (lower page) pattern
                                          then [Possible_attempt n page] else []) ps))
      (Possible_attempt n' u)
   = (if n = n' \<and> page = u then hits ps page else 0)"
  by (induction ps) (auto simp: hits_def)

lemma category_findings_Cons:
  "category_findings n ps (page # pages) =
      concat (map (\<lambda>pattern. if contains (lower page) pattern
                               then [Possible_attempt n page] else []) ps)
      @ category_findings n ps pages"
  by (simp add: category_findings_def)

lemma count_category_findings_other:
  "n \<noteq> n' \<Longrightarrow> count_list (category_findings n ps pages) (Possible_attempt n' u) = 0"
  by (induction pages) (simp_all add: category_findings_def count_page_findings)

lemma count_category_findings_absent:
  "u \<notin> set pages \<Longrightarrow> count_list (category_findings n ps pages) (Possible_attempt n u) = 0"
  by (induction pages) (auto simp: category_findings_def count_page_findings)

lemma count_category_findings:
  "distinct pages \<Longrightarrow> u \<in> set pages \<Longrightarrow>
   count_list (category_findings n ps pages) (Possible_attempt n u) = hits ps u"
proof (induction pages)
  case Nil
  then show ?case by simp
next
  case (Cons page pages)
  show ?case
  proof (cases "page = u")
    case True
    with Cons.prems have "u \<notin> set pages" by simp
    then show ?thesis
      using True
      by (simp add: category_findings_Cons count_page_findings count_category_findings_absent)
  next
    case False
    with Cons show ?thesis by (simp add: category_findings_Cons count_page_findings)
  qed
qed

lemma count_url_findings:
  assumes "distinct (counter_keys (top_pages st))"
      and "(name, patterns) \<in> set attack_patterns"
  shows "count_list (url_findings st) (Possible_attempt name u)
           = (if u \<in> set (counter_keys (top_pages st)) then hits patterns u else 0)"
proof (cases "u \<in> set (counter_keys (top_pages st))")
  case True
  from assms(2) show ?thesis
    unfolding url_findings_by_category attack_patterns_def
    by (auto simp: count_category_findings [OF assms(1) True] count_category_findings_other True)
next
  case False
  from assms(2) show ?thesis
    unfolding url_findings_by_category attack_patterns_def
    by (auto simp: count_category_findings_absent [OF False] count_category_findings_other False)
qed

text \<open>The keys of a counter stay distinct, and so do the URL keys during a run.\<close>

lemma distinct_keys_incr:
  "distinct (counter_keys c) \<Longrightarrow> distinct (counter_keys (incr k c))"
  by (simp add: keys_incr_list)

lemma parse_fallback_pages:
  "top_pages (parse_fallback line st) =
     (if 7 \<le> length (split line)
      then (case find looks_like_url (split line) of
              None \<Rightarrow> top_pages st
            | Some part \<Rightarrow> incr part (top_pages st))
      else top_pages st)"
  by (simp add: parse_fallback_def Let_def split: option.split)

lemma process_line_pages_distinct:
  "distinct (counter_keys (top_pages st)) \<Longrightarrow>
   distinct (counter_keys (top_pages (process_line raw st)))"
  by (simp add: process_line_def Let_def process_log_entry_pages parse_fallback_pages
        distinct_keys_incr split: option.split)

lemma process_lines_pages_distinct:
  "distinct (counter_keys (top_pages st)) \<Longrightarrow>
   distinct (counter_keys (top_pages (process_lines ls st)))"
  by (induction ls arbitrary: st) (simp_all add: process_line_pages_distinct)

text \<open>
  The URL of the tenth line of the sample log contains two of the Path Traversal patterns,
  and the check prints two Path Traversal warnings for it.
\<close>

theorem traversal_url_reported_twice:
  "top_pages (process_line traversal_line init_stats) = [(''/../../../etc/passwd'', 1)]
   \<and> contains (lower ''/../../../etc/passwd'') ''../''
   \<and> contains (lower ''/../../../etc/passwd'') ''/etc/passwd''
   \<and> url_findings (process_line traversal_line init_stats) =
        [Possible_attempt ''Path Traversal'' ''/../../../etc/passwd'',
         Possible_attempt ''Path Traversal'' ''/../../../etc/passwd'']"
  by code_simp

text \<open>
  C7, as the code has it. The URL keys of a run are distinct, and for every category and
  URL key the check prints one warning for each pattern of the category that occurs in the
  lowercased URL: as many warnings for the pair as patterns occur, none when no pattern
  occurs, and none for a URL that is not a key.
\<close>

theorem one_finding_per_pattern:
  "distinct (counter_keys (top_pages (snd (parse_log_file log_file init_stats))))
   \<and> ((name, patterns) \<in> set attack_patterns \<and> distinct (counter_keys (top_pages st)) \<longrightarrow>
        count_list (url_findings st) (Possible_attempt name u)
          = (if u \<in> set (counter_keys (top_pages st)) then hits patterns u else 0))"
proof -
  have init: "distinct (counter_keys (top_pages init_stats))"
    by (simp add: init_stats_def counter_keys_def)
  have "distinct (counter_keys (top_pages (snd (parse_log_file log_file init_stats))))"
    using init by (cases log_file) (simp_all add: parse_log_file_None parse_log_file_Some process_lines_pages_distinct)
  then show ?thesis
    using count_url_findings by blast
qed

lemma traversal_facts:
  "top_pages (process_line traversal_line init_stats) = [(''/../../../etc/passwd'', 1)]
   \<and> hits [''../'', [CHR ''.'', CHR ''.'', CHR 0x5C], ''/etc/passwd''] ''/../../../etc/passwd'' = 2
   \<and> hits [''union select'', ''or 1=1'', ''drop table'', ''insert into'']
        ''/../../../etc/passwd'' = 0"
  by code_simp

theorem one_finding_per_pattern_witness:
  "(''Path Traversal'', [''../'', [CHR ''.'', CHR ''.'', CHR 0x5C], ''/etc/passwd''])
     \<in> set attack_patterns
   \<and> distinct (counter_keys (top_pages (process_line traversal_line init_stats)))
   \<and> count_list (url_findings (process_line traversal_line init_stats))
        (Possible_attempt ''Path Traversal'' ''/../../../etc/passwd'') = 2
   \<and> count_list (url_findings (process_line traversal_line init_stats))
        (Possible_attempt ''SQL Injection'' ''/../../../etc/passwd'') = 0"
proof -
  have traversal: "(''Path Traversal'', [''../'', [CHR ''.'', CHR ''.'', CHR 0x5C], ''/etc/passwd''])
       \<in> set attack_patterns"
    by (simp add: attack_patterns_def)
  have injection: "(''SQL Injection'', [''union select'', ''or 1=1'', ''drop table'', ''insert into''])
       \<in> set attack_patterns"
    by (simp add: attack_patterns_def)
  have keys: "counter_keys (top_pages (process_line traversal_line init_stats))
      = [''/../../../etc/passwd'']"
    using traversal_facts by (simp add: counter_keys_def)
  have key: "''/../../../etc/passwd''
      \<in> set (counter_keys (top_pages (process_line traversal_line init_stats)))"
    by (simp only: keys list.set_intros)
  have dist: "distinct (counter_keys (top_pages (process_line traversal_line init_stats)))"
    by (simp only: keys distinct_singleton)
  note counts = one_finding_per_pattern [THEN conjunct2, rule_format, OF conjI, OF _ dist]
  have two: "count_list (url_findings (process_line traversal_line init_stats))
        (Possible_attempt ''Path Traversal'' ''/../../../etc/passwd'') = 2"
    using counts [OF traversal, of "''/../../../etc/passwd''"] key traversal_facts
    by (simp only: if_True)
  have none: "count_list (url_findings (process_line traversal_line init_stats))
        (Possible_attempt ''SQL Injection'' ''/../../../etc/passwd'') = 0"
    using counts [OF injection, of "''/../../../etc/passwd''"] key traversal_facts
    by (simp only: if_True)
  show ?thesis
    using traversal dist two none by (intro conjI)
qed

section \<open>The check for suspicious user agents\<close>

lemma browser_of_name: "browser_of ua \<in> set browser_names"
  by (simp add: browser_of_def browser_names_def Let_def)

lemma process_line_agents:
  "user_agents (process_line raw st) = user_agents st
   \<or> (\<exists>ua. user_agents (process_line raw st) = incr (browser_of ua) (user_agents st))"
  by (auto simp: process_line_def Let_def process_log_entry_agents parse_fallback_agents
      split: option.split)

lemma process_line_agent_keys:
  "set (counter_keys (user_agents st)) \<subseteq> set browser_names \<Longrightarrow>
   set (counter_keys (user_agents (process_line raw st))) \<subseteq> set browser_names"
  using process_line_agents [of raw st] browser_of_name
  by (auto simp: keys_incr)

lemma process_lines_agent_keys:
  "set (counter_keys (user_agents st)) \<subseteq> set browser_names \<Longrightarrow>
   set (counter_keys (user_agents (process_lines ls st))) \<subseteq> set browser_names"
  by (induction ls arbitrary: st) (simp_all add: process_line_agent_keys)

lemma browser_names_not_suspicious:
  "list_all (\<lambda>ua. list_all (\<lambda>agent. \<not> contains (lower ua) agent) suspicious_agents)
     browser_names"
  by code_simp

lemma agent_findings_of_names:
  assumes "set (counter_keys (user_agents st)) \<subseteq> set browser_names"
  shows "agent_findings st = []"
proof -
  have "\<not> contains (lower ua) agent"
    if "ua \<in> set (counter_keys (user_agents st))" and "agent \<in> set suspicious_agents"
    for ua agent
    using that assms browser_names_not_suspicious
    by (auto simp: list_all_iff)
  then show ?thesis
    by (auto simp: agent_findings_def)
qed

lemma agent_findings_after_run: "agent_findings (process_lines ls init_stats) = []"
  by (rule agent_findings_of_names, rule process_lines_agent_keys)
     (simp add: init_stats_def counter_keys_def)

lemma sqlmap_line_facts:
  "map_option user_agent (log_pattern_match (strip sqlmap_line)) = Some ''sqlmap/1.4.2''
   \<and> contains (lower ''sqlmap/1.4.2'') ''sqlmap''
   \<and> user_agents (process_line sqlmap_line init_stats) = [(''Other'', 1)]
   \<and> check_security_issues (process_line sqlmap_line init_stats) = []"
  by code_simp

text \<open>
  C2. The eighth line of the sample log has the user agent \<open>sqlmap/1.4.2\<close>, which contains
  \<open>sqlmap\<close>. Its ingestion keeps only the browser name \<open>Other\<close>, the check visits the
  browser names, and no warning is printed; so it is after every run, since no browser name
  contains a word of the list.
\<close>

theorem sqlmap_agent_not_reported:
  "map_option user_agent (log_pattern_match (strip sqlmap_line)) = Some ''sqlmap/1.4.2''
   \<and> contains (lower ''sqlmap/1.4.2'') ''sqlmap''
   \<and> user_agents (process_line sqlmap_line init_stats) = [(''Other'', 1)]
   \<and> check_security_issues (process_line sqlmap_line init_stats) = []
   \<and> (\<forall>ls. agent_findings (process_lines ls init_stats) = [])"
  using sqlmap_line_facts agent_findings_after_run by blast

section \<open>The run over the sample log\<close>

lemma sample_stats:
  "process_lines create_sample_log init_stats =
     \<lparr>total_requests = 12,
      status_codes = [(''200'', 8), (''404'', 2), (''403'', 2)],
      top_pages =
        [(''/index.html'', 1), (''/about.html'', 1), (''/contact.php'', 1),
         (''/old-page.html'', 1), (''/admin/login'', 1), (''/api/users'', 1),
         (''/products/item123'', 1), (''/wp-admin'', 1),
         (''/search?q=<script>alert('xss')</script>'', 1),
         (''/../../../etc/passwd'', 1), (''/login'', 1), (''/images/logo.png'', 1)],
      top_ips =
        [(''192.168.1.100'', 2), (''192.168.1.101'', 1), (''192.168.1.102'', 1),
         (''192.168.1.103'', 1), (''192.168.1.104'', 1), (''192.168.1.105'', 1),
         (''192.168.1.106'', 1), (''192.168.1.107'', 1), (''192.168.1.108'', 1),
         (''192.168.1.109'', 1), (''192.168.1.110'', 1)],
      hourly_activity = [(''10:00'', 12)],
      user_agents =
        [(''Other'', 7), (''Chrome'', 2), (''Firefox'', 1), (''Safari'', 1), (''Edge'', 1)],
      referrers = [(''https://example.com'', 5), (''https://app.example.com'', 1)]\<rparr>"
  by code_simp

lemma sample_findings:
  "check_security_issues
     \<lparr>total_requests = 12,
      status_codes = [(''200'', 8), (''404'', 2), (''403'', 2)],
      top_pages =
        [(''/index.html'', 1), (''/about.html'', 1), (''/contact.php'', 1),
         (''/old-page.html'', 1), (''/admin/login'', 1), (''/api/users'', 1),
         (''/products/item123'', 1), (''/wp-admin'', 1),
         (''/search?q=<script>alert('xss')</script>'', 1),
         (''/../../../etc/passwd'', 1), (''/login'', 1), (''/images/logo.png'', 1)],
      top_ips =
        [(''192.168.1.100'', 2), (''192.168.1.101'', 1), (''192.168.1.102'', 1),
         (''192.168.1.103'', 1), (''192.168.1.104'', 1), (''192.168.1.105'', 1),
         (''192.168.1.106'', 1), (''192.168.1.107'', 1), (''192.168.1.108'', 1),
         (''192.168.1.109'', 1), (''192.168.1.110'', 1)],
      hourly_activity = [(''10:00'', 12)],
      user_agents =
        [(''Other'', 7), (''Chrome'', 2), (''Firefox'', 1), (''Safari'', 1), (''Edge'', 1)],
      referrers = [(''https://example.com'', 5), (''https://app.example.com'', 1)]\<rparr>
   = [Possible_attempt ''XSS'' ''/search?q=<script>alert('xss')</script>'',
      Possible_attempt ''Path Traversal'' ''/../../../etc/passwd'',
      Possible_attempt ''Path Traversal'' ''/../../../etc/passwd'']"
  by code_simp

text \<open>
  C1. The run over the twelve lines of the sample log counts 12 requests and the statuses
  200, 404 and 403 eight, two and two times. The check then prints three warnings, all for
  URLs: one for XSS on the URL with \<open><script>\<close>, and two for Path Traversal on the URL with
  \<open>/etc/passwd\<close>. It prints no warning for the user agent \<open>sqlmap/1.4.2\<close>.
\<close>

theorem sample_log_analysis:
  "parse_log_file (Some create_sample_log) init_stats
     = (True, process_lines create_sample_log init_stats)
   \<and> length create_sample_log = 12
   \<and> total_requests (process_lines create_sample_log init_stats) = 12
   \<and> status_codes (process_lines create_sample_log init_stats)
        = [(''200'', 8), (''404'', 2), (''403'', 2)]
   \<and> agent_findings (process_lines create_sample_log init_stats) = []
   \<and> check_security_issues (process_lines create_sample_log init_stats)
        = [Possible_attempt ''XSS'' ''/search?q=<script>alert('xss')</script>'',
           Possible_attempt ''Path Traversal'' ''/../../../etc/passwd'',
           Possible_attempt ''Path Traversal'' ''/../../../etc/passwd'']"
proof -
  have "length create_sample_log = 12"
    by (simp add: create_sample_log_def)
  moreover have "check_security_issues (process_lines create_sample_log init_stats)
        = [Possible_attempt ''XSS'' ''/search?q=<script>alert('xss')</script>'',
           Possible_attempt ''Path Traversal'' ''/../../../etc/passwd'',
           Possible_attempt ''Path Traversal'' ''/../../../etc/passwd'']"
    by (simp only: sample_stats sample_findings)
  moreover have "total_requests (process_lines create_sample_log init_stats) = 12"
    by (simp add: sample_stats)
  moreover have "status_codes (process_lines create_sample_log init_stats)
        = [(''200'', 8), (''404'', 2), (''403'', 2)]"
    by (simp add: sample_stats)
  ultimately show ?thesis
    using agent_findings_after_run [of create_sample_log]
    by (simp add: parse_log_file_Some)
qed

end
